theory Spec2Isabelle
  imports Complex_Main "HOL-Library.Sublist"
begin

section \<open>Strings\<close>

text \<open>
  A Python \<open>str\<close> is a sequence of Unicode code points, so a string is a list of code
  points (\<open>nat\<close>): \<open>len\<close> is \<open>length\<close>, and the en dash (U+2013) and the em dash
  (U+2014) are single elements. \<open>ustr\<close> reads an ASCII literal.
\<close>

type_synonym ustring = "nat list"

definition ustr :: "string \<Rightarrow> ustring" where
  "ustr s = map of_char s"

definition en_dash :: nat where
  "en_dash = 8211"

definition em_dash :: nat where
  "em_dash = 8212"

definition hyphen :: nat where
  "hyphen = 45"

text \<open>
  \<open>str.lower()\<close>, on the ASCII letters. The full Unicode mapping also changes letters
  outside ASCII; the only ASCII letters it produces from them are \<open>i\<close> (from U+0130,
  followed by U+0307) and \<open>k\<close> (from U+212A), and no search term of this program has a
  \<open>k\<close> or ends in \<open>i\<close>, so the substring tests below do not see the difference.
\<close>

definition lower_cp :: "nat \<Rightarrow> nat" where
  "lower_cp c = (if 65 \<le> c \<and> c \<le> 90 then c + 32 else c)"

definition lower :: "ustring \<Rightarrow> ustring" where
  "lower s = map lower_cp s"

text \<open>\<open>needle in hay\<close> on strings: the needle occurs as a contiguous run.\<close>

fun contains :: "'a list \<Rightarrow> 'a list \<Rightarrow> bool" where
  "contains n [] = (n = [])"
| "contains n (c # cs) = (prefix n (c # cs) \<or> contains n cs)"

text \<open>\<open>s.replace(a, b)\<close> for one-character \<open>a\<close> and \<open>b\<close>.\<close>

definition replace1 :: "nat \<Rightarrow> nat \<Rightarrow> ustring \<Rightarrow> ustring" where
  "replace1 a b s = map (\<lambda>c. if c = a then b else c) s"

text \<open>
  \<open>s.split(sep)\<close> for a non-empty separator: the occurrences are found from the left and
  do not overlap; a string without the separator is returned whole, as the only part.
\<close>

function split :: "'a list \<Rightarrow> 'a list \<Rightarrow> 'a list list" where
  "split sep [] = [[]]"
| "split sep (c # cs) =
     (if sep \<noteq> [] \<and> prefix sep (c # cs)
      then [] # split sep (drop (length sep) (c # cs))
      else (case split sep cs of
              [] \<Rightarrow> [[c]]
            | p # ps \<Rightarrow> (c # p) # ps))"
  by pat_completeness auto
termination
  by (relation "measure (\<lambda>(sep, s). length s)") auto

text \<open>\<open>str.isspace()\<close> of one code point, and \<open>s.strip()\<close>.\<close>

definition is_space :: "nat \<Rightarrow> bool" where
  "is_space c \<longleftrightarrow>
     (9 \<le> c \<and> c \<le> 13) \<or> (28 \<le> c \<and> c \<le> 32) \<or> c = 133 \<or> c = 160 \<or> c = 5760 \<or>
     (8192 \<le> c \<and> c \<le> 8202) \<or> c = 8232 \<or> c = 8233 \<or> c = 8239 \<or> c = 8287 \<or> c = 12288"

definition strip :: "ustring \<Rightarrow> ustring" where
  "strip s = rev (dropWhile is_space (rev (dropWhile is_space s)))"

section \<open>Dates\<close>

text \<open>
  The \<open>datetime\<close> values this program builds come from \<open>strptime\<close> with formats that
  hold a year and a month only, so the day is 1 and the time is midnight.
\<close>

record datetime =
  dt_year :: nat
  dt_month :: nat
  dt_day :: nat

text \<open>
  \<open>datetime.strptime\<close> is the Python standard library's. This is a model of it for the
  directives of the six formats of \<open>parse_date\<close> (\<open>%Y\<close>: four digits; \<open>%m\<close>:
  \<open>1[0-2]|0[1-9]|[1-9]\<close>; \<open>%B\<close> and \<open>%b\<close>: the English month names and their
  three-letter abbreviations, in any case): a blank of the format matches one or more
  blanks, any other character matches itself, and the call fails (\<open>None\<close>, for
  \<open>ValueError\<close>) when the input does not match, when input is left over, or when the
  year is 0. The year may be written in any decimal digits, the month number in ASCII
  digits only. \<open>parse_date\<close> and \<open>parse_duration\<close> below take the library function as a
  parameter, so what is proved of them for every \<open>strp\<close> does not rest on this model; the
  worked examples do.
\<close>

datatype directive = DYear | DMonth | DMonthName | DMonthAbbr | DSpace | DLit nat | DBad

function compile_format :: "ustring \<Rightarrow> directive list" where
  "compile_format [] = []"
| "compile_format [c] = (if c = 37 then [DBad] else if is_space c then [DSpace] else [DLit c])"
| "compile_format (c # d # rest) =
     (if c = 37 then
        (if d = 89 then DYear # compile_format rest
         else if d = 109 then DMonth # compile_format rest
         else if d = 66 then DMonthName # compile_format rest
         else if d = 98 then DMonthAbbr # compile_format rest
         else [DBad])
      else if is_space c then DSpace # compile_format (dropWhile is_space (d # rest))
      else DLit c # compile_format (d # rest))"
  by pat_completeness auto
termination
proof (relation "measure length")
  fix c d :: nat and rest :: "nat list"
  have "length (dropWhile is_space (d # rest)) \<le> length (d # rest)"
    by (rule length_dropWhile_le)
  then show "(dropWhile is_space (d # rest), c # d # rest) \<in> measure length"
    by simp
qed auto

text \<open>
  The digits \<open>\d\<close> matches and \<open>int\<close> reads are the decimal digits of Unicode (category
  \<open>Nd\<close>), which come in blocks of ten in the order 0 to 9. These are the code points of
  the zeros, as of Unicode 14; the ASCII digits are the first block.
\<close>

definition decimal_zeros :: "nat list" where
  "decimal_zeros =
     [48, 1632, 1776, 1984, 2406, 2534, 2662, 2790, 2918, 3046, 3174, 3302, 3430, 3558, 3664,
      3792, 3872, 4160, 4240, 6112, 6160, 6470, 6608, 6784, 6800, 6992, 7088, 7232, 7248,
      42528, 43216, 43264, 43472, 43504, 43600, 44016, 65296, 66720, 68912, 69734, 69872,
      69942, 70096, 70384, 70736, 70864, 71248, 71360, 71472, 71904, 72016, 72784, 73040,
      73120, 92768, 92864, 93008, 120782, 120792, 120802, 120812, 120822, 123200, 123632,
      125264, 130032]"

definition is_digit :: "nat \<Rightarrow> bool" where
  "is_digit c \<longleftrightarrow> list_ex (\<lambda>z. z \<le> c \<and> c \<le> z + 9) decimal_zeros"

definition digit_val :: "nat \<Rightarrow> nat" where
  "digit_val c =
     (case find (\<lambda>z. z \<le> c \<and> c \<le> z + 9) decimal_zeros of None \<Rightarrow> 0 | Some z \<Rightarrow> c - z)"

definition month_names :: "ustring list" where
  "month_names = map ustr [''january'', ''february'', ''march'', ''april'', ''may'', ''june'',
     ''july'', ''august'', ''september'', ''october'', ''november'', ''december'']"

definition month_abbrs :: "ustring list" where
  "month_abbrs = map (take 3) month_names"

text \<open>
  One directive against the input: every way it can match, in the order the regular
  expression tries them, each with the month or year it reads and the rest of the input.
\<close>

datatype field = FYear nat | FMonth nat | FNone

fun match_names :: "ustring list \<Rightarrow> nat \<Rightarrow> ustring \<Rightarrow> (field \<times> ustring) list" where
  "match_names [] k s = []"
| "match_names (n # ns) k s =
     (if lower (take (length n) s) = n
      then (FMonth k, drop (length n) s) # match_names ns (Suc k) s
      else match_names ns (Suc k) s)"

fun match_directive :: "directive \<Rightarrow> ustring \<Rightarrow> (field \<times> ustring) list" where
  "match_directive DYear s =
     (case s of
        a # b # c # d # rest \<Rightarrow>
          (if is_digit a \<and> is_digit b \<and> is_digit c \<and> is_digit d
           then [(FYear (1000 * digit_val a + 100 * digit_val b + 10 * digit_val c + digit_val d),
                  rest)]
           else [])
      | _ \<Rightarrow> [])"
| "match_directive DMonth s =
     (case s of
        [] \<Rightarrow> []
      | a # rest \<Rightarrow>
          (case rest of
             b # rest' \<Rightarrow>
               (if a = 49 \<and> 48 \<le> b \<and> b \<le> 50 then [(FMonth (10 + (b - 48)), rest')]
                else if a = 48 \<and> 49 \<le> b \<and> b \<le> 57 then [(FMonth (b - 48), rest')]
                else [])
           | [] \<Rightarrow> [])
          @ (if 49 \<le> a \<and> a \<le> 57 then [(FMonth (a - 48), rest)] else []))"
| "match_directive DMonthName s = match_names month_names 1 s"
| "match_directive DMonthAbbr s = match_names month_abbrs 1 s"
| "match_directive DSpace s =
     (let n = length (takeWhile is_space s)
      in map (\<lambda>k. (FNone, drop (n - k) s)) [0..<n])"
| "match_directive (DLit c) s =
     (case s of [] \<Rightarrow> [] | a # rest \<Rightarrow> (if a = c then [(FNone, rest)] else []))"
| "match_directive DBad s = []"

fun set_field :: "field \<Rightarrow> nat option \<times> nat option \<Rightarrow> nat option \<times> nat option" where
  "set_field (FYear y) (_, m) = (Some y, m)"
| "set_field (FMonth m) (y, _) = (y, Some m)"
| "set_field FNone ym = ym"

fun match_format ::
  "directive list \<Rightarrow> nat option \<times> nat option \<Rightarrow> ustring \<Rightarrow>
   ((nat option \<times> nat option) \<times> ustring) list" where
  "match_format [] ym s = [(ym, s)]"
| "match_format (d # ds) ym s =
     concat (map (\<lambda>(f, rest). match_format ds (set_field f ym) rest) (match_directive d s))"

definition strptime :: "ustring \<Rightarrow> ustring \<Rightarrow> datetime option" where
  "strptime date_string fmt =
     (case match_format (compile_format fmt) (None, None) date_string of
        [] \<Rightarrow> None
      | ((y, m), rest) # _ \<Rightarrow>
          (if rest \<noteq> [] then None
           else (let year = (case y of None \<Rightarrow> 1900 | Some v \<Rightarrow> v);
                     month = (case m of None \<Rightarrow> 1 | Some v \<Rightarrow> v)
                 in if year = 0 then None
                    else Some \<lparr>dt_year = year, dt_month = month, dt_day = 1\<rparr>)))"

section \<open>Parsing durations and dates (\<open>migrate_data_to_rag.py\<close>)\<close>

definition formats :: "ustring list" where
  "formats = map ustr [''%Y-%m'', ''%Y/%m'', ''%m/%Y'', ''%Y'', ''%B %Y'', ''%b %Y'']"

text \<open>
  \<open>parse_date\<close> tries the formats in order and returns the first date that
  \<open>strptime\<close> yields; a \<open>ValueError\<close> (\<open>None\<close>) moves on to the next format. The library
  function is the parameter \<open>strp\<close>.
\<close>

fun try_formats ::
  "(ustring \<Rightarrow> ustring \<Rightarrow> datetime option) \<Rightarrow> ustring list \<Rightarrow> ustring \<Rightarrow> datetime option" where
  "try_formats strp [] date_str = None"
| "try_formats strp (fmt # fmts) date_str =
     (case strp date_str fmt of
        Some d \<Rightarrow> Some d
      | None \<Rightarrow> try_formats strp fmts date_str)"

definition parse_date ::
  "(ustring \<Rightarrow> ustring \<Rightarrow> datetime option) \<Rightarrow> ustring \<Rightarrow> datetime option" where
  "parse_date strp date_str =
     (if date_str = [] then None else try_formats strp formats date_str)"

definition normalize_dashes :: "ustring \<Rightarrow> ustring" where
  "normalize_dashes s = replace1 em_dash hyphen (replace1 en_dash hyphen s)"

definition parse_duration ::
  "(ustring \<Rightarrow> ustring \<Rightarrow> datetime option) \<Rightarrow> ustring \<Rightarrow>
   datetime option \<times> datetime option \<times> bool" where
  "parse_duration strp duration_str =
     (if duration_str = [] then (None, None, False)
      else
        (let is_current = (contains (ustr ''present'') (lower duration_str)
                           \<or> contains (ustr ''current'') (lower duration_str));
             parts = split (ustr '' - '') (normalize_dashes duration_str)
         in (case parts of
               start_part # end_part # _ \<Rightarrow>
                 (let start_str = strip start_part;
                      end_str = strip end_part;
                      start_date = parse_date strp start_str;
                      end_date = (if is_current then None else parse_date strp end_str)
                  in (start_date, end_date, is_current))
             | _ \<Rightarrow> (None, None, False))))"

section \<open>The Document Loader (\<open>load_and_validate_json\<close>)\<close>

text \<open>
  What \<open>json.load\<close> returns: \<open>None\<close>, a bool, an int, a float, a string, a list or a
  dict (its keys in order, each once).
\<close>

datatype json =
    JNull
  | JBool bool
  | JInt int
  | JFloat rat
  | JStr ustring
  | JArr "json list"
  | JObj "(ustring \<times> json) list"

text \<open>
  The exceptions of this program, and what opening and reading the file can do: the file is
  missing (\<open>FileNotFoundError\<close>), it cannot be opened or read (another \<open>OSError\<close>), it is
  not UTF-8 (\<open>UnicodeDecodeError\<close>), it is not JSON (\<open>JSONDecodeError\<close>), or it parses.
\<close>

datatype py_exception =
    FileNotFoundError
  | JSONDecodeError
  | OSError
  | UnicodeDecodeError
  | TypeError
  | AttributeError
  | KeyError
  | UpstashError

datatype file_outcome =
    NoSuchFile
  | Unreadable
  | NotUtf8
  | NotJson
  | Parsed json

text \<open>The log lines the properties below are about.\<close>

datatype log_line =
    WarnMissingSections "ustring list"
  | InfoLoaded
  | ErrorFileNotFound
  | ErrorInvalidJson
  | ErrorLoadingJson

definition required_sections :: "ustring list" where
  "required_sections =
     map ustr [''personalInfo'', ''experience'', ''skills'', ''projects'', ''education'']"

text \<open>
  \<open>section not in data\<close>: membership of a key in a dict, of an element in a list, of a
  substring in a string; \<open>TypeError\<close> on a value that is not iterable.
\<close>

fun py_in :: "ustring \<Rightarrow> json \<Rightarrow> py_exception + bool" where
  "py_in k (JObj kvs) = Inr (k \<in> set (map fst kvs))"
| "py_in k (JArr xs) = Inr (JStr k \<in> set xs)"
| "py_in k (JStr s) = Inr (contains k s)"
| "py_in k _ = Inl TypeError"

text \<open>\<open>data.get(key, default)\<close>: only a dict has the method.\<close>

fun py_get :: "json \<Rightarrow> ustring \<Rightarrow> json \<Rightarrow> py_exception + json" where
  "py_get (JObj kvs) k dflt = Inr (case map_of kvs k of None \<Rightarrow> dflt | Some v \<Rightarrow> v)"
| "py_get _ k dflt = Inl AttributeError"

fun py_len :: "json \<Rightarrow> py_exception + nat" where
  "py_len (JObj kvs) = Inr (length kvs)"
| "py_len (JArr xs) = Inr (length xs)"
| "py_len (JStr s) = Inr (length s)"
| "py_len _ = Inl TypeError"

text \<open>
  The list comprehension over the required sections; the first exception ends it.
\<close>

fun missing_sections :: "ustring list \<Rightarrow> json \<Rightarrow> py_exception + ustring list" where
  "missing_sections [] data = Inr []"
| "missing_sections (s # ss) data =
     (case py_in s data of
        Inl e \<Rightarrow> Inl e
      | Inr present \<Rightarrow>
          (case missing_sections ss data of
             Inl e \<Rightarrow> Inl e
           | Inr rest \<Rightarrow> Inr (if present then rest else s # rest)))"

text \<open>The four \<open>len(data.get(section, []))\<close> of the summary lines, in order.\<close>

fun section_lengths :: "ustring list \<Rightarrow> json \<Rightarrow> py_exception + nat list" where
  "section_lengths [] data = Inr []"
| "section_lengths (s # ss) data =
     (case py_get data s (JArr []) of
        Inl e \<Rightarrow> Inl e
      | Inr v \<Rightarrow>
          (case py_len v of
             Inl e \<Rightarrow> Inl e
           | Inr n \<Rightarrow>
               (case section_lengths ss data of
                  Inl e \<Rightarrow> Inl e
                | Inr ns \<Rightarrow> Inr (n # ns))))"

text \<open>
  The body of the \<open>try\<close> block on parsed data: the data or the exception raised, with the
  lines logged until then. The warning and the success line are logged before the summary
  lines are computed.
\<close>

definition sized_sections :: "ustring list" where
  "sized_sections = map ustr [''experience'', ''skills'', ''projects'', ''education'']"

definition validate_sections :: "json \<Rightarrow> (py_exception + json) \<times> log_line list" where
  "validate_sections data =
     (case missing_sections required_sections data of
        Inl e \<Rightarrow> (Inl e, [])
      | Inr missing \<Rightarrow>
          (let lines = (if missing \<noteq> [] then [WarnMissingSections missing] else [])
                       @ [InfoLoaded]
           in (case section_lengths sized_sections data of
                 Inl e \<Rightarrow> (Inl e, lines)
               | Inr _ \<Rightarrow> (Inr data, lines))))"

text \<open>
  \<open>load_and_validate_json\<close>: each \<open>except\<close> clause logs its line and raises the exception
  again, so the result is the exception itself, with the line logged for it last.
\<close>

fun load_and_validate_json :: "file_outcome \<Rightarrow> (py_exception + json) \<times> log_line list" where
  "load_and_validate_json NoSuchFile = (Inl FileNotFoundError, [ErrorFileNotFound])"
| "load_and_validate_json NotJson = (Inl JSONDecodeError, [ErrorInvalidJson])"
| "load_and_validate_json Unreadable = (Inl OSError, [ErrorLoadingJson])"
| "load_and_validate_json NotUtf8 = (Inl UnicodeDecodeError, [ErrorLoadingJson])"
| "load_and_validate_json (Parsed data) =
     (case validate_sections data of
        (Inl e, lines) \<Rightarrow> (Inl e, lines @ [ErrorLoadingJson])
      | (Inr d, lines) \<Rightarrow> (Inr d, lines))"

text \<open>A value that has a length: a dict, a list or a string.\<close>

fun has_len :: "json \<Rightarrow> bool" where
  "has_len (JObj kvs) = True"
| "has_len (JArr xs) = True"
| "has_len (JStr s) = True"
| "has_len _ = False"

section \<open>Profile documents\<close>

text \<open>
  The pipeline works on a profile document: a JSON object whose sections are objects and
  lists of objects. A document is modelled with its types: each object is a record of the
  keys the program reads, \<open>None\<close> standing for an absent key, a present key holding a
  value of the type the program expects (a string, a list of strings, a list of objects).
  Objects hold no other keys. \<open>d.get(k)\<close> reads a field, \<open>d.get(k, default)\<close> reads it
  through \<open>get_or\<close>.
\<close>

definition get_or :: "'a option \<Rightarrow> 'a \<Rightarrow> 'a" where
  "get_or v dflt = (case v of None \<Rightarrow> dflt | Some x \<Rightarrow> x)"

record contact =
  c_email :: "ustring option"
  c_linkedin :: "ustring option"
  c_github :: "ustring option"
  c_portfolio :: "ustring option"

record personal_info =
  pi_name :: "ustring option"
  pi_title :: "ustring option"
  pi_location :: "ustring option"
  pi_summary :: "ustring option"
  pi_elevator_pitch :: "ustring option"
  pi_contact :: "contact option"

record experience =
  ex_company :: "ustring option"
  ex_position :: "ustring option"
  ex_duration :: "ustring option"
  ex_description :: "ustring option"
  ex_achievements :: "ustring list option"
  ex_technologies :: "ustring list option"
  ex_skills_developed :: "ustring list option"
  ex_impact :: "ustring option"
  ex_keywords :: "ustring list option"

record technical_skill =
  ts_name :: "ustring option"
  ts_proficiency :: "ustring option"
  ts_experience :: "ustring option"
  ts_context :: "ustring option"
  ts_projects :: "ustring list option"

record skill_category =
  sc_category :: "ustring option"
  sc_skills :: "technical_skill list option"

record soft_skill =
  ss_skill :: "ustring option"
  ss_name :: "ustring option"
  ss_evidence :: "ustring option"
  ss_examples :: "ustring list option"

record skills_section =
  sk_technical :: "skill_category list option"
  sk_soft_skills :: "soft_skill list option"

record project =
  pr_name :: "ustring option"
  pr_type :: "ustring option"
  pr_status :: "ustring option"
  pr_description :: "ustring option"
  pr_role :: "ustring option"
  pr_timeline :: "ustring option"
  pr_url :: "ustring option"
  pr_github :: "ustring option"
  pr_documentation :: "ustring option"
  pr_technologies :: "ustring list option"
  pr_achievements :: "ustring list option"
  pr_challenges :: "ustring list option"
  pr_team_size :: "json option"

record education_entry =
  ed_institution :: "ustring option"
  ed_degree :: "ustring option"
  ed_field_of_study :: "ustring option"
  ed_graduation_date :: "ustring option"
  ed_gpa :: "json option"
  ed_honors_awards :: "ustring list option"
  ed_relevant_coursework :: "ustring list option"
  ed_thesis_projects :: "ustring list option"
  ed_skills :: "ustring list option"
  ed_activities :: "ustring list option"

record document =
  doc_personalInfo :: "personal_info option"
  doc_experience :: "experience list option"
  doc_skills :: "skills_section option"
  doc_projects :: "project list option"
  doc_education :: "education_entry list option"

text \<open>The JSON value a document is, as \<open>json.load\<close> returns it.\<close>

definition json_field :: "string \<Rightarrow> ('a \<Rightarrow> json) \<Rightarrow> 'a option \<Rightarrow> (ustring \<times> json) list" where
  "json_field k enc v = (case v of None \<Rightarrow> [] | Some x \<Rightarrow> [(ustr k, enc x)])"

definition json_strings :: "ustring list \<Rightarrow> json" where
  "json_strings xs = JArr (map JStr xs)"

definition contact_json :: "contact \<Rightarrow> json" where
  "contact_json c = JObj (json_field ''email'' JStr (c_email c) @ json_field ''linkedin'' JStr (c_linkedin c)
     @ json_field ''github'' JStr (c_github c) @ json_field ''portfolio'' JStr (c_portfolio c))"

definition personal_info_json :: "personal_info \<Rightarrow> json" where
  "personal_info_json p = JObj (json_field ''name'' JStr (pi_name p) @ json_field ''title'' JStr (pi_title p)
     @ json_field ''location'' JStr (pi_location p) @ json_field ''summary'' JStr (pi_summary p)
     @ json_field ''elevator_pitch'' JStr (pi_elevator_pitch p)
     @ json_field ''contact'' contact_json (pi_contact p))"

definition experience_json :: "experience \<Rightarrow> json" where
  "experience_json e = JObj (json_field ''company'' JStr (ex_company e)
     @ json_field ''position'' JStr (ex_position e) @ json_field ''duration'' JStr (ex_duration e)
     @ json_field ''description'' JStr (ex_description e)
     @ json_field ''achievements'' json_strings (ex_achievements e)
     @ json_field ''technologies'' json_strings (ex_technologies e)
     @ json_field ''skills_developed'' json_strings (ex_skills_developed e)
     @ json_field ''impact'' JStr (ex_impact e) @ json_field ''keywords'' json_strings (ex_keywords e))"

definition technical_skill_json :: "technical_skill \<Rightarrow> json" where
  "technical_skill_json s = JObj (json_field ''name'' JStr (ts_name s)
     @ json_field ''proficiency'' JStr (ts_proficiency s) @ json_field ''experience'' JStr (ts_experience s)
     @ json_field ''context'' JStr (ts_context s) @ json_field ''projects'' json_strings (ts_projects s))"

definition skill_category_json :: "skill_category \<Rightarrow> json" where
  "skill_category_json g = JObj (json_field ''category'' JStr (sc_category g)
     @ json_field ''skills'' (\<lambda>xs. JArr (map technical_skill_json xs)) (sc_skills g))"

definition soft_skill_json :: "soft_skill \<Rightarrow> json" where
  "soft_skill_json s = JObj (json_field ''skill'' JStr (ss_skill s) @ json_field ''name'' JStr (ss_name s)
     @ json_field ''evidence'' JStr (ss_evidence s) @ json_field ''examples'' json_strings (ss_examples s))"

definition skills_section_json :: "skills_section \<Rightarrow> json" where
  "skills_section_json s =
     JObj (json_field ''technical'' (\<lambda>xs. JArr (map skill_category_json xs)) (sk_technical s)
     @ json_field ''soft_skills'' (\<lambda>xs. JArr (map soft_skill_json xs)) (sk_soft_skills s))"

definition project_json :: "project \<Rightarrow> json" where
  "project_json p = JObj (json_field ''name'' JStr (pr_name p) @ json_field ''type'' JStr (pr_type p)
     @ json_field ''status'' JStr (pr_status p) @ json_field ''description'' JStr (pr_description p)
     @ json_field ''role'' JStr (pr_role p) @ json_field ''timeline'' JStr (pr_timeline p)
     @ json_field ''url'' JStr (pr_url p) @ json_field ''github'' JStr (pr_github p)
     @ json_field ''documentation'' JStr (pr_documentation p)
     @ json_field ''technologies'' json_strings (pr_technologies p)
     @ json_field ''achievements'' json_strings (pr_achievements p)
     @ json_field ''challenges'' json_strings (pr_challenges p)
     @ json_field ''team_size'' (\<lambda>v. v) (pr_team_size p))"

definition education_entry_json :: "education_entry \<Rightarrow> json" where
  "education_entry_json e = JObj (json_field ''institution'' JStr (ed_institution e)
     @ json_field ''degree'' JStr (ed_degree e) @ json_field ''field_of_study'' JStr (ed_field_of_study e)
     @ json_field ''graduation_date'' JStr (ed_graduation_date e)
     @ json_field ''gpa'' (\<lambda>v. v) (ed_gpa e)
     @ json_field ''honors_awards'' json_strings (ed_honors_awards e)
     @ json_field ''relevant_coursework'' json_strings (ed_relevant_coursework e)
     @ json_field ''thesis_projects'' json_strings (ed_thesis_projects e)
     @ json_field ''skills'' json_strings (ed_skills e)
     @ json_field ''activities'' json_strings (ed_activities e))"

definition document_json :: "document \<Rightarrow> json" where
  "document_json d = JObj (json_field ''personalInfo'' personal_info_json (doc_personalInfo d)
     @ json_field ''experience'' (\<lambda>xs. JArr (map experience_json xs)) (doc_experience d)
     @ json_field ''skills'' skills_section_json (doc_skills d)
     @ json_field ''projects'' (\<lambda>xs. JArr (map project_json xs)) (doc_projects d)
     @ json_field ''education'' (\<lambda>xs. JArr (map education_entry_json xs)) (doc_education d))"

text \<open>The objects with no key, and the document with no section.\<close>

definition empty_personal_info :: personal_info where
  "empty_personal_info = \<lparr>pi_name = None, pi_title = None, pi_location = None,
     pi_summary = None, pi_elevator_pitch = None, pi_contact = None\<rparr>"

definition empty_experience :: experience where
  "empty_experience = \<lparr>ex_company = None, ex_position = None, ex_duration = None,
     ex_description = None, ex_achievements = None, ex_technologies = None,
     ex_skills_developed = None, ex_impact = None, ex_keywords = None\<rparr>"

definition empty_project :: project where
  "empty_project = \<lparr>pr_name = None, pr_type = None, pr_status = None, pr_description = None,
     pr_role = None, pr_timeline = None, pr_url = None, pr_github = None,
     pr_documentation = None, pr_technologies = None, pr_achievements = None,
     pr_challenges = None, pr_team_size = None\<rparr>"

definition empty_education_entry :: education_entry where
  "empty_education_entry = \<lparr>ed_institution = None, ed_degree = None, ed_field_of_study = None,
     ed_graduation_date = None, ed_gpa = None, ed_honors_awards = None,
     ed_relevant_coursework = None, ed_thesis_projects = None, ed_skills = None,
     ed_activities = None\<rparr>"

definition empty_document :: document where
  "empty_document = \<lparr>doc_personalInfo = None, doc_experience = None, doc_skills = None,
     doc_projects = None, doc_education = None\<rparr>"

section \<open>The relational store\<close>

text \<open>
  Modelled from the spec: the schema is not part of the sources, which only name the tables
  and the columns they write. A table is the list of its rows in insertion order, with the
  columns the program writes (the timestamps \<open>created_at\<close> and \<open>updated_at\<close> and the
  serial keys the program never reads are left out). \<open>RETURNING id\<close> yields the next value
  of the table's sequence. Every statement succeeds and every transaction commits, so the
  \<open>except\<close> branches that roll back are not reached.
\<close>

record professional_row =
  prof_id :: int
  prof_name :: "ustring option"
  prof_title :: "ustring option"
  prof_location :: "ustring option"
  prof_email :: "ustring option"
  prof_linkedin :: "ustring option"
  prof_github :: "ustring option"
  prof_portfolio :: "ustring option"
  prof_summary :: "ustring option"
  prof_elevator_pitch :: "ustring option"

record experience_row =
  er_professional_id :: int
  er_company :: "ustring option"
  er_position :: "ustring option"
  er_start_date :: "datetime option"
  er_end_date :: "datetime option"
  er_is_current :: bool
  er_description :: "ustring option"
  er_achievements :: "ustring list"
  er_technologies :: "ustring list"
  er_skills_developed :: "ustring list"
  er_impact :: "ustring option"
  er_keywords :: "ustring list"

record skill_row =
  sr_professional_id :: int
  sr_category :: ustring
  sr_name :: "ustring option"
  sr_proficiency :: ustring
  sr_experience_years :: ustring
  sr_context :: ustring
  sr_projects :: "ustring list"
  sr_is_technical :: bool
  sr_examples :: "ustring list"

record project_row =
  jr_professional_id :: int
  jr_name :: "ustring option"
  jr_description :: "ustring option"
  jr_role :: "ustring option"
  jr_technologies :: "ustring list"
  jr_outcomes :: "ustring list"
  jr_challenges :: "ustring list"
  jr_demo_url :: "ustring option"
  jr_repository_url :: "ustring option"
  jr_documentation_url :: "ustring option"
  jr_status :: ustring
  jr_start_date :: "datetime option"
  jr_end_date :: "datetime option"

record education_row =
  dr_professional_id :: int
  dr_type :: ustring
  dr_institution :: "ustring option"
  dr_degree_name :: "ustring option"
  dr_field :: "ustring option"
  dr_graduation_date :: "datetime option"
  dr_gpa :: "json option"
  dr_achievements :: "ustring list"
  dr_relevant_coursework :: "ustring list"
  dr_projects :: "ustring list"
  dr_skills :: "ustring list"
  dr_status :: ustring

text \<open>
  The row of \<open>json_content\<close> holds the document itself for its serialisation; the SHA-256
  hash of the serialisation is left out.
\<close>

record json_content_row =
  cr_id :: int
  cr_professional_id :: int
  cr_version :: ustring
  cr_content :: document
  cr_validation_status :: ustring

text \<open>A Python value kept in a chunk's metadata: \<open>None\<close>, an int or a string.\<close>

datatype pyval = PNone | PInt int | PStr ustring

text \<open>
  The row of \<open>content_chunks\<close>, without the columns \<open>content\<close> and \<open>tags\<close> (the rendered
  text and the keyword list of a chunk, which the model leaves out) and without the
  constant \<open>relevance_score\<close>.
\<close>

record chunk_row =
  kr_id :: int
  kr_professional_id :: int
  kr_chunk_id :: ustring
  kr_type :: ustring
  kr_title :: ustring
  kr_category :: pyval
  kr_importance :: ustring
  kr_date_range :: "ustring option"
  kr_vector_id :: ustring
  kr_embedding_model :: ustring

record database =
  professionals :: "professional_row list"
  experiences :: "experience_row list"
  skills :: "skill_row list"
  projects :: "project_row list"
  education :: "education_row list"
  json_content :: "json_content_row list"
  content_chunks :: "chunk_row list"
  professionals_seq :: int
  json_content_seq :: int
  content_chunks_seq :: int

section \<open>The vector service\<close>

text \<open>
  Modelled from the spec: the Upstash index is an external service. It holds vectors by
  id; an upsert replaces the vectors of the same ids and adds the others. Whether a call
  raises is the service's: \<open>upsert_raises k\<close> tells it for the \<open>k\<close>-th upsert call made on
  the index (counted from 0 by \<open>upsert_calls\<close>), \<open>clear_raises\<close> for \<open>info\<close> and \<open>reset\<close>.
  The text sent for embedding is left out with the chunk's rendered text.
\<close>

record vector =
  v_id :: pyval
  v_metadata :: "string \<rightharpoonup> pyval"

record vector_index =
  vectors :: "vector list"
  upsert_calls :: nat
  upsert_raises :: "nat \<Rightarrow> bool"
  clear_raises :: bool

definition index_upsert :: "vector list \<Rightarrow> vector_index \<Rightarrow> bool \<times> vector_index" where
  "index_upsert vs ix =
     (if upsert_raises ix (upsert_calls ix)
      then (False, ix\<lparr>upsert_calls := Suc (upsert_calls ix)\<rparr>)
      else (True, ix\<lparr>upsert_calls := Suc (upsert_calls ix),
                     vectors := filter (\<lambda>v. v_id v \<notin> set (map v_id vs)) (vectors ix) @ vs\<rparr>))"

section \<open>The migrator (\<open>migrate_data_to_rag.py\<close>)\<close>

record MigrationStats =
  professionals_inserted :: nat
  experiences_inserted :: nat
  skills_inserted :: nat
  projects_inserted :: nat
  education_inserted :: nat
  json_content_inserted :: nat
  content_chunks_created :: nat
  vectors_embedded :: nat
  errors_encountered :: nat

text \<open>
  The state of a \<open>DigitalTwinMigrator\<close>: the two connections, the statistics, and the
  delays it has slept (in seconds, oldest first), which stand for \<open>time.sleep\<close>.
\<close>

record migrator =
  postgres_conn :: database
  vector_index :: vector_index
  stats :: MigrationStats
  slept :: "nat list"

subsection \<open>The Relational Mapper\<close>

definition empty_contact :: contact where
  "empty_contact = \<lparr>c_email = None, c_linkedin = None, c_github = None, c_portfolio = None\<rparr>"

text \<open>
  \<open>SELECT id FROM professionals WHERE email = %s\<close> and \<open>fetchone\<close>: the first row with
  that email; no row when the email is \<open>None\<close>, since \<open>email = NULL\<close> is never true.
\<close>

definition select_professional :: "ustring option \<Rightarrow> database \<Rightarrow> professional_row option" where
  "select_professional email db =
     find (\<lambda>r. email \<noteq> None \<and> prof_email r = email) (professionals db)"

definition insert_professional_data :: "personal_info \<Rightarrow> migrator \<Rightarrow> int \<times> migrator" where
  "insert_professional_data personal m =
     (let contact = get_or (pi_contact personal) empty_contact;
          email = c_email contact;
          db = postgres_conn m
      in (case select_professional email db of
            Some existing \<Rightarrow>
              (let professional_id = prof_id existing;
                   upd = (\<lambda>r. if prof_id r = professional_id
                             then r\<lparr>prof_name := pi_name personal,
                                    prof_title := pi_title personal,
                                    prof_location := pi_location personal,
                                    prof_linkedin := c_linkedin contact,
                                    prof_github := c_github contact,
                                    prof_portfolio := c_portfolio contact,
                                    prof_summary := pi_summary personal,
                                    prof_elevator_pitch := pi_elevator_pitch personal\<rparr>
                             else r)
               in (professional_id,
                   m\<lparr>postgres_conn := db\<lparr>professionals := map upd (professionals db)\<rparr>\<rparr>))
          | None \<Rightarrow>
              (let professional_id = professionals_seq db + 1;
                   row = \<lparr>prof_id = professional_id,
                          prof_name = pi_name personal,
                          prof_title = pi_title personal,
                          prof_location = pi_location personal,
                          prof_email = email,
                          prof_linkedin = c_linkedin contact,
                          prof_github = c_github contact,
                          prof_portfolio = c_portfolio contact,
                          prof_summary = pi_summary personal,
                          prof_elevator_pitch = pi_elevator_pitch personal\<rparr>
               in (professional_id,
                   m\<lparr>postgres_conn := db\<lparr>professionals := professionals db @ [row],
                                           professionals_seq := professional_id\<rparr>,
                     stats := (stats m)\<lparr>professionals_inserted :=
                                Suc (professionals_inserted (stats m))\<rparr>\<rparr>))))"

definition experience_row_of ::
  "(ustring \<Rightarrow> ustring \<Rightarrow> datetime option) \<Rightarrow> int \<Rightarrow> experience \<Rightarrow> experience_row" where
  "experience_row_of strp professional_id entry =
     (case parse_duration strp (get_or (ex_duration entry) []) of
        (start_date, end_date, is_current) \<Rightarrow>
          \<lparr>er_professional_id = professional_id,
           er_company = ex_company entry,
           er_position = ex_position entry,
           er_start_date = start_date,
           er_end_date = end_date,
           er_is_current = is_current,
           er_description = ex_description entry,
           er_achievements = get_or (ex_achievements entry) [],
           er_technologies = get_or (ex_technologies entry) [],
           er_skills_developed = get_or (ex_skills_developed entry) [],
           er_impact = ex_impact entry,
           er_keywords = get_or (ex_keywords entry) []\<rparr>)"

text \<open>The loop of \<open>insert_experiences\<close>: one row and one count per entry, in order.\<close>

fun insert_experience_rows ::
  "(ustring \<Rightarrow> ustring \<Rightarrow> datetime option) \<Rightarrow> int \<Rightarrow> experience list \<Rightarrow> migrator \<Rightarrow> migrator" where
  "insert_experience_rows strp professional_id [] m = m"
| "insert_experience_rows strp professional_id (entry # exps) m =
     insert_experience_rows strp professional_id exps
       (m\<lparr>postgres_conn := (postgres_conn m)\<lparr>experiences :=
              experiences (postgres_conn m) @ [experience_row_of strp professional_id entry]\<rparr>,
          stats := (stats m)\<lparr>experiences_inserted := Suc (experiences_inserted (stats m))\<rparr>\<rparr>)"

definition insert_experiences ::
  "(ustring \<Rightarrow> ustring \<Rightarrow> datetime option) \<Rightarrow> experience list \<Rightarrow> int \<Rightarrow> migrator \<Rightarrow> migrator" where
  "insert_experiences strp exps professional_id m =
     insert_experience_rows strp professional_id exps
       (m\<lparr>postgres_conn := (postgres_conn m)\<lparr>experiences :=
              filter (\<lambda>r. er_professional_id r \<noteq> professional_id)
                (experiences (postgres_conn m))\<rparr>\<rparr>)"

definition technical_skill_row :: "int \<Rightarrow> ustring \<Rightarrow> technical_skill \<Rightarrow> skill_row" where
  "technical_skill_row professional_id category skill =
     \<lparr>sr_professional_id = professional_id,
      sr_category = category,
      sr_name = ts_name skill,
      sr_proficiency = get_or (ts_proficiency skill) (ustr ''Intermediate''),
      sr_experience_years = get_or (ts_experience skill) [],
      sr_context = get_or (ts_context skill) [],
      sr_projects = get_or (ts_projects skill) [],
      sr_is_technical = True,
      sr_examples = []\<rparr>"

definition soft_skill_row :: "int \<Rightarrow> soft_skill \<Rightarrow> skill_row" where
  "soft_skill_row professional_id skill =
     \<lparr>sr_professional_id = professional_id,
      sr_category = ustr ''Soft Skills'',
      sr_name = Some (get_or (ss_skill skill) (get_or (ss_name skill) [])),
      sr_proficiency = ustr ''Advanced'',
      sr_experience_years = [],
      sr_context = get_or (ss_evidence skill) [],
      sr_projects = [],
      sr_is_technical = False,
      sr_examples = get_or (ss_examples skill) []\<rparr>"

text \<open>\<open>all_skills\<close>: the technical skills, group by group, then the soft skills.\<close>

definition all_skills :: "int \<Rightarrow> skills_section \<Rightarrow> skill_row list" where
  "all_skills professional_id sk =
     (case sk_technical sk of
        None \<Rightarrow> []
      | Some groups \<Rightarrow>
          concat (map (\<lambda>g. map (technical_skill_row professional_id
                                  (get_or (sc_category g) (ustr ''Technical'')))
                             (get_or (sc_skills g) [])) groups))
     @ (case sk_soft_skills sk of
          None \<Rightarrow> []
        | Some soft \<Rightarrow> map (soft_skill_row professional_id) soft)"

fun insert_skill_rows :: "skill_row list \<Rightarrow> migrator \<Rightarrow> migrator" where
  "insert_skill_rows [] m = m"
| "insert_skill_rows (row # rows) m =
     insert_skill_rows rows
       (m\<lparr>postgres_conn := (postgres_conn m)\<lparr>skills := skills (postgres_conn m) @ [row]\<rparr>,
          stats := (stats m)\<lparr>skills_inserted := Suc (skills_inserted (stats m))\<rparr>\<rparr>)"

definition insert_skills :: "skills_section \<Rightarrow> int \<Rightarrow> migrator \<Rightarrow> migrator" where
  "insert_skills sk professional_id m =
     insert_skill_rows (all_skills professional_id sk)
       (m\<lparr>postgres_conn := (postgres_conn m)\<lparr>skills :=
              filter (\<lambda>r. sr_professional_id r \<noteq> professional_id)
                (skills (postgres_conn m))\<rparr>\<rparr>)"

definition project_row_of ::
  "(ustring \<Rightarrow> ustring \<Rightarrow> datetime option) \<Rightarrow> int \<Rightarrow> project \<Rightarrow> project_row" where
  "project_row_of strp professional_id project =
     (let dates = (case pr_timeline project of
                     None \<Rightarrow> (None, None)
                   | Some timeline \<Rightarrow>
                       (case parse_duration strp timeline of
                          (start_date, end_date, _) \<Rightarrow> (start_date, end_date)))
      in \<lparr>jr_professional_id = professional_id,
          jr_name = pr_name project,
          jr_description = pr_description project,
          jr_role = pr_role project,
          jr_technologies = get_or (pr_technologies project) [],
          jr_outcomes = get_or (pr_achievements project) [],
          jr_challenges = get_or (pr_challenges project) [],
          jr_demo_url = pr_url project,
          jr_repository_url = pr_github project,
          jr_documentation_url = pr_documentation project,
          jr_status = get_or (pr_status project) (ustr ''completed''),
          jr_start_date = fst dates,
          jr_end_date = snd dates\<rparr>)"

fun insert_project_rows ::
  "(ustring \<Rightarrow> ustring \<Rightarrow> datetime option) \<Rightarrow> int \<Rightarrow> project list \<Rightarrow> migrator \<Rightarrow> migrator" where
  "insert_project_rows strp professional_id [] m = m"
| "insert_project_rows strp professional_id (project # rest) m =
     insert_project_rows strp professional_id rest
       (m\<lparr>postgres_conn := (postgres_conn m)\<lparr>projects :=
              projects (postgres_conn m) @ [project_row_of strp professional_id project]\<rparr>,
          stats := (stats m)\<lparr>projects_inserted := Suc (projects_inserted (stats m))\<rparr>\<rparr>)"

definition insert_projects ::
  "(ustring \<Rightarrow> ustring \<Rightarrow> datetime option) \<Rightarrow> project list \<Rightarrow> int \<Rightarrow> migrator \<Rightarrow> migrator" where
  "insert_projects strp ps professional_id m =
     insert_project_rows strp professional_id ps
       (m\<lparr>postgres_conn := (postgres_conn m)\<lparr>projects :=
              filter (\<lambda>r. jr_professional_id r \<noteq> professional_id)
                (projects (postgres_conn m))\<rparr>\<rparr>)"

definition education_row_of ::
  "(ustring \<Rightarrow> ustring \<Rightarrow> datetime option) \<Rightarrow> int \<Rightarrow> education_entry \<Rightarrow> education_row" where
  "education_row_of strp professional_id edu =
     \<lparr>dr_professional_id = professional_id,
      dr_type = ustr ''degree'',
      dr_institution = ed_institution edu,
      dr_degree_name = ed_degree edu,
      dr_field = ed_field_of_study edu,
      dr_graduation_date =
        (case ed_graduation_date edu of None \<Rightarrow> None | Some g \<Rightarrow> parse_date strp g),
      dr_gpa = ed_gpa edu,
      dr_achievements = get_or (ed_honors_awards edu) [],
      dr_relevant_coursework = get_or (ed_relevant_coursework edu) [],
      dr_projects = get_or (ed_thesis_projects edu) [],
      dr_skills = get_or (ed_skills edu) [],
      dr_status = ustr ''completed''\<rparr>"

fun insert_education_rows ::
  "(ustring \<Rightarrow> ustring \<Rightarrow> datetime option) \<Rightarrow> int \<Rightarrow> education_entry list \<Rightarrow> migrator \<Rightarrow>
   migrator" where
  "insert_education_rows strp professional_id [] m = m"
| "insert_education_rows strp professional_id (edu # rest) m =
     insert_education_rows strp professional_id rest
       (m\<lparr>postgres_conn := (postgres_conn m)\<lparr>education :=
              education (postgres_conn m) @ [education_row_of strp professional_id edu]\<rparr>,
          stats := (stats m)\<lparr>education_inserted := Suc (education_inserted (stats m))\<rparr>\<rparr>)"

definition insert_education ::
  "(ustring \<Rightarrow> ustring \<Rightarrow> datetime option) \<Rightarrow> education_entry list \<Rightarrow> int \<Rightarrow> migrator \<Rightarrow>
   migrator" where
  "insert_education strp education_list professional_id m =
     insert_education_rows strp professional_id education_list
       (m\<lparr>postgres_conn := (postgres_conn m)\<lparr>education :=
              filter (\<lambda>r. dr_professional_id r \<noteq> professional_id)
                (education (postgres_conn m))\<rparr>\<rparr>)"

definition insert_json_content :: "document \<Rightarrow> int \<Rightarrow> migrator \<Rightarrow> int \<times> migrator" where
  "insert_json_content json_data professional_id m =
     (let db = postgres_conn m
      in (case find (\<lambda>r. cr_professional_id r = professional_id \<and> cr_version r = ustr ''v1'')
                 (json_content db) of
            Some existing \<Rightarrow>
              (let content_id = cr_id existing;
                   upd = (\<lambda>r. if cr_id r = content_id
                             then r\<lparr>cr_content := json_data,
                                    cr_validation_status := ustr ''valid''\<rparr>
                             else r)
               in (content_id,
                   m\<lparr>postgres_conn := db\<lparr>json_content := map upd (json_content db)\<rparr>\<rparr>))
          | None \<Rightarrow>
              (let content_id = json_content_seq db + 1;
                   row = \<lparr>cr_id = content_id, cr_professional_id = professional_id,
                          cr_version = ustr ''v1'', cr_content = json_data,
                          cr_validation_status = ustr ''valid''\<rparr>
               in (content_id,
                   m\<lparr>postgres_conn := db\<lparr>json_content := json_content db @ [row],
                                           json_content_seq := content_id\<rparr>,
                     stats := (stats m)\<lparr>json_content_inserted :=
                                Suc (json_content_inserted (stats m))\<rparr>\<rparr>))))"

subsection \<open>The Chunk Builder\<close>

text \<open>
  A \<open>ContentChunk\<close>, without its rendered text (\<open>content\<close>) and its keyword list
  (\<open>keywords\<close>): they are template output that nothing below depends on. The metadata is
  a dict from the program's own key names to values.
\<close>

record ContentChunk =
  metadata :: "string \<rightharpoonup> pyval"
  chunk_type :: ustring
  importance :: ustring
  date_context :: "ustring option"

definition opt_val :: "ustring option \<Rightarrow> pyval" where
  "opt_val v = (case v of None \<Rightarrow> PNone | Some s \<Rightarrow> PStr s)"

definition personal_info_chunks :: "document \<Rightarrow> int \<Rightarrow> ContentChunk list" where
  "personal_info_chunks json_data professional_id =
     (case doc_personalInfo json_data of
        None \<Rightarrow> []
      | Some personal \<Rightarrow>
          (if personal_info_json personal = JObj [] then []
           else [\<lparr>metadata = [''professional_id'' \<mapsto> PInt professional_id,
                              ''content_type'' \<mapsto> PStr (ustr ''personal_info''),
                              ''name'' \<mapsto> opt_val (pi_name personal),
                              ''title'' \<mapsto> opt_val (pi_title personal)],
                  chunk_type = ustr ''personal_info'',
                  importance = ustr ''high'',
                  date_context = None\<rparr>]))"

definition experience_chunk :: "int \<Rightarrow> nat \<times> experience \<Rightarrow> ContentChunk" where
  "experience_chunk professional_id ie =
     (case ie of (i, entry) \<Rightarrow>
        \<lparr>metadata = [''professional_id'' \<mapsto> PInt professional_id,
                     ''content_type'' \<mapsto> PStr (ustr ''experience''),
                     ''company'' \<mapsto> opt_val (ex_company entry),
                     ''position'' \<mapsto> opt_val (ex_position entry),
                     ''duration'' \<mapsto> opt_val (ex_duration entry),
                     ''index'' \<mapsto> PInt (int i)],
         chunk_type = ustr ''experience'',
         importance = (if i < 3 then ustr ''high'' else ustr ''medium''),
         date_context = ex_duration entry\<rparr>)"

definition experience_chunks :: "document \<Rightarrow> int \<Rightarrow> ContentChunk list" where
  "experience_chunks json_data professional_id =
     map (experience_chunk professional_id)
       (enumerate 0 (get_or (doc_experience json_data) []))"

definition technical_skills_chunk :: "int \<Rightarrow> skill_category \<Rightarrow> ContentChunk" where
  "technical_skills_chunk professional_id category_group =
     (let category = get_or (sc_category category_group) (ustr ''Technical'');
          skills_in_category = get_or (sc_skills category_group) []
      in \<lparr>metadata = [''professional_id'' \<mapsto> PInt professional_id,
                      ''content_type'' \<mapsto> PStr (ustr ''skills''),
                      ''category'' \<mapsto> PStr category,
                      ''skill_count'' \<mapsto> PInt (int (length skills_in_category))],
          chunk_type = ustr ''skills'',
          importance = ustr ''high'',
          date_context = None\<rparr>)"

definition soft_skills_chunk :: "int \<Rightarrow> soft_skill list \<Rightarrow> ContentChunk" where
  "soft_skills_chunk professional_id soft_skills =
     \<lparr>metadata = [''professional_id'' \<mapsto> PInt professional_id,
                  ''content_type'' \<mapsto> PStr (ustr ''skills''),
                  ''category'' \<mapsto> PStr (ustr ''Soft Skills''),
                  ''skill_count'' \<mapsto> PInt (int (length soft_skills))],
      chunk_type = ustr ''skills'',
      importance = ustr ''medium'',
      date_context = None\<rparr>"

definition empty_skills :: skills_section where
  "empty_skills = \<lparr>sk_technical = None, sk_soft_skills = None\<rparr>"

definition skills_chunks :: "document \<Rightarrow> int \<Rightarrow> ContentChunk list" where
  "skills_chunks json_data professional_id =
     (let skills_data = get_or (doc_skills json_data) empty_skills
      in (case sk_technical skills_data of
            None \<Rightarrow> []
          | Some groups \<Rightarrow> map (technical_skills_chunk professional_id) groups)
         @ (case sk_soft_skills skills_data of
              None \<Rightarrow> []
            | Some soft_skills \<Rightarrow> [soft_skills_chunk professional_id soft_skills]))"

definition project_chunk :: "int \<Rightarrow> nat \<times> project \<Rightarrow> ContentChunk" where
  "project_chunk professional_id ip =
     (case ip of (i, project) \<Rightarrow>
        \<lparr>metadata = [''professional_id'' \<mapsto> PInt professional_id,
                     ''content_type'' \<mapsto> PStr (ustr ''project''),
                     ''project_name'' \<mapsto> opt_val (pr_name project),
                     ''project_type'' \<mapsto> opt_val (pr_type project),
                     ''status'' \<mapsto> opt_val (pr_status project),
                     ''index'' \<mapsto> PInt (int i)],
         chunk_type = ustr ''project'',
         importance = (if pr_status project = Some (ustr ''completed'')
                       then ustr ''high'' else ustr ''medium''),
         date_context = pr_timeline project\<rparr>)"

definition project_chunks :: "document \<Rightarrow> int \<Rightarrow> ContentChunk list" where
  "project_chunks json_data professional_id =
     map (project_chunk professional_id) (enumerate 0 (get_or (doc_projects json_data) []))"

definition education_chunk :: "int \<Rightarrow> nat \<times> education_entry \<Rightarrow> ContentChunk" where
  "education_chunk professional_id ie =
     (case ie of (i, edu) \<Rightarrow>
        \<lparr>metadata = [''professional_id'' \<mapsto> PInt professional_id,
                     ''content_type'' \<mapsto> PStr (ustr ''education''),
                     ''institution'' \<mapsto> opt_val (ed_institution edu),
                     ''degree'' \<mapsto> opt_val (ed_degree edu),
                     ''field'' \<mapsto> opt_val (ed_field_of_study edu),
                     ''index'' \<mapsto> PInt (int i)],
         chunk_type = ustr ''education'',
         importance = ustr ''medium'',
         date_context = ed_graduation_date edu\<rparr>)"

definition education_chunks :: "document \<Rightarrow> int \<Rightarrow> ContentChunk list" where
  "education_chunks json_data professional_id =
     map (education_chunk professional_id) (enumerate 0 (get_or (doc_education json_data) []))"

text \<open>
  \<open>create_content_chunks\<close>: the chunks in the order the function appends them. On a
  typed document no step raises.
\<close>

definition create_content_chunks :: "document \<Rightarrow> int \<Rightarrow> ContentChunk list" where
  "create_content_chunks json_data professional_id =
     personal_info_chunks json_data professional_id
     @ experience_chunks json_data professional_id
     @ skills_chunks json_data professional_id
     @ project_chunks json_data professional_id
     @ education_chunks json_data professional_id"

subsection \<open>The Chunk Persister\<close>

text \<open>\<open>str\<close> of a Python int, as an f-string formats it.\<close>

function str_nat :: "nat \<Rightarrow> ustring" where
  "str_nat n = (if n < 10 then [48 + n] else str_nat (n div 10) @ [48 + n mod 10])"
  by pat_completeness auto
termination
  by (relation "measure (\<lambda>n. n)") auto

declare str_nat.simps [simp del]

definition str_int :: "int \<Rightarrow> ustring" where
  "str_int i = (if i < 0 then 45 # str_nat (nat (- i)) else str_nat (nat i))"

definition format_pyval :: "pyval \<Rightarrow> ustring" where
  "format_pyval v = (case v of PNone \<Rightarrow> ustr ''None'' | PInt i \<Rightarrow> str_int i | PStr s \<Rightarrow> s)"

text \<open>
  \<open>str.title()\<close>, on the ASCII letters: a letter after a letter is lowered, any other
  letter is raised. Cased letters outside ASCII, which the library would change too, are
  left as they are. The title so made is kept only for a chunk type that is none of the
  five the Chunk Builder produces.
\<close>

fun title_from :: "bool \<Rightarrow> ustring \<Rightarrow> ustring" where
  "title_from previous_is_cased [] = []"
| "title_from previous_is_cased (c # cs) =
     (if 65 \<le> c \<and> c \<le> 90
      then (if previous_is_cased then c + 32 else c) # title_from True cs
      else if 97 \<le> c \<and> c \<le> 122
      then (if previous_is_cased then c else c - 32) # title_from True cs
      else c # title_from False cs)"

definition title :: "ustring \<Rightarrow> ustring" where
  "title s = title_from False s"

definition metadata_get :: "(string \<rightharpoonup> pyval) \<Rightarrow> string \<Rightarrow> pyval \<Rightarrow> pyval" where
  "metadata_get md k dflt = (case md k of None \<Rightarrow> dflt | Some v \<Rightarrow> v)"

definition make_chunk_id :: "int \<Rightarrow> ustring \<Rightarrow> nat \<Rightarrow> ustring" where
  "make_chunk_id professional_id ctype i =
     ustr ''chunk-'' @ str_int professional_id @ ustr ''-'' @ ctype @ ustr ''-'' @ str_nat i"

definition make_vector_id :: "ustring \<Rightarrow> ustring" where
  "make_vector_id chunk_id = ustr ''upstash-'' @ chunk_id"

definition chunk_title :: "ContentChunk \<Rightarrow> ustring" where
  "chunk_title chunk =
     (if chunk_type chunk = ustr ''experience''
      then ustr ''Experience at ''
           @ format_pyval (metadata_get (metadata chunk) ''company'' (PStr (ustr ''Unknown'')))
      else if chunk_type chunk = ustr ''project''
      then ustr ''Project: ''
           @ format_pyval (metadata_get (metadata chunk) ''project_name'' (PStr (ustr ''Unknown'')))
      else if chunk_type chunk = ustr ''skills''
      then format_pyval (metadata_get (metadata chunk) ''category'' (PStr (ustr ''General'')))
           @ ustr '' Skills''
      else if chunk_type chunk = ustr ''education''
      then ustr ''Education at ''
           @ format_pyval (metadata_get (metadata chunk) ''institution'' (PStr (ustr ''Unknown'')))
      else if chunk_type chunk = ustr ''personal_info''
      then ustr ''Professional Profile''
      else title (chunk_type chunk))"

definition chunk_row_of :: "int \<Rightarrow> nat \<Rightarrow> int \<Rightarrow> ContentChunk \<Rightarrow> chunk_row" where
  "chunk_row_of professional_id i db_chunk_id chunk =
     (let chunk_id = make_chunk_id professional_id (chunk_type chunk) i
      in \<lparr>kr_id = db_chunk_id,
          kr_professional_id = professional_id,
          kr_chunk_id = chunk_id,
          kr_type = chunk_type chunk,
          kr_title = chunk_title chunk,
          kr_category = metadata_get (metadata chunk) ''content_type'' (PStr (chunk_type chunk)),
          kr_importance = importance chunk,
          kr_date_range = date_context chunk,
          kr_vector_id = make_vector_id chunk_id,
          kr_embedding_model = ustr ''mixbread-large''\<rparr>)"

text \<open>
  The loop of \<open>insert_content_chunks\<close> from index \<open>i\<close> on. It writes the row id and the
  vector id into the metadata of the chunk object itself; the chunks are returned as the
  loop leaves them, for the caller that holds the same objects.
\<close>

fun insert_chunk_rows ::
  "int \<Rightarrow> nat \<Rightarrow> ContentChunk list \<Rightarrow> migrator \<Rightarrow> ContentChunk list \<times> migrator" where
  "insert_chunk_rows professional_id i [] m = ([], m)"
| "insert_chunk_rows professional_id i (chunk # rest) m =
     (let db = postgres_conn m;
          db_chunk_id = content_chunks_seq db + 1;
          row = chunk_row_of professional_id i db_chunk_id chunk;
          chunk' = chunk\<lparr>metadata := (metadata chunk)
                     (''chunk_id'' \<mapsto> PInt db_chunk_id,
                      ''vector_id'' \<mapsto> PStr (kr_vector_id row))\<rparr>;
          m' = m\<lparr>postgres_conn := db\<lparr>content_chunks := content_chunks db @ [row],
                                      content_chunks_seq := db_chunk_id\<rparr>,
                 stats := (stats m)\<lparr>content_chunks_created :=
                            Suc (content_chunks_created (stats m))\<rparr>\<rparr>
      in (case insert_chunk_rows professional_id (Suc i) rest m' of
            (rest', m'') \<Rightarrow> (chunk' # rest', m'')))"

definition insert_content_chunks ::
  "ContentChunk list \<Rightarrow> int \<Rightarrow> migrator \<Rightarrow> ContentChunk list \<times> migrator" where
  "insert_content_chunks chunks professional_id m = insert_chunk_rows professional_id 0 chunks m"

text \<open>
  The reader of the vector store (\<open>run_single_test\<close> in \<open>test_rag_functionality.py\<close>)
  works out the chunk id of a search result from the result's id and metadata. The
  metadata is \<open>None\<close> when the result has no metadata attribute or holds \<open>None\<close> there,
  and a dict otherwise, as the migrator writes it (the branch for metadata that has no
  \<open>get\<close> differs only in reading the fallback with \<open>getattr\<close>). A result without metadata,
  or with an empty dict, gets the chunk id \<open>'unknown'\<close>. Otherwise the prefix \<open>upstash-\<close>
  is cut off \<open>str(result.id)\<close>, and an id without the prefix falls back on the metadata
  entry \<open>chunk_id\<close>.
\<close>

definition chunk_id_of_vector_id :: "pyval \<Rightarrow> (string \<rightharpoonup> pyval) option \<Rightarrow> pyval" where
  "chunk_id_of_vector_id result_id result_metadata =
     (case result_metadata of
        None \<Rightarrow> PStr (ustr ''unknown'')
      | Some md \<Rightarrow>
          (if md = Map.empty then PStr (ustr ''unknown'')
           else (let vector_id = format_pyval result_id
                 in if prefix (ustr ''upstash-'') vector_id then PStr (drop 8 vector_id)
                    else metadata_get md ''chunk_id'' (PStr (ustr ''unknown'')))))"

subsection \<open>The Vector Upserter\<close>

definition max_retries :: nat where
  "max_retries = 3"

definition retry_delay :: nat where
  "retry_delay = 1"

definition batch_size :: nat where
  "batch_size = 10"

text \<open>
  \<open>_upsert_vector_batch\<close>: the loop over \<open>range(max_retries)\<close>. A successful upsert counts
  the vectors and returns; a failed one sleeps and goes on, or raises on the last attempt.
\<close>

fun upsert_attempts ::
  "nat list \<Rightarrow> vector list \<Rightarrow> migrator \<Rightarrow> (py_exception + unit) \<times> migrator" where
  "upsert_attempts [] vs m = (Inr (), m)"
| "upsert_attempts (attempt # later) vs m =
     (case index_upsert vs (vector_index m) of
        (True, ix) \<Rightarrow>
          (Inr (), m\<lparr>vector_index := ix,
                     stats := (stats m)\<lparr>vectors_embedded :=
                                vectors_embedded (stats m) + length vs\<rparr>\<rparr>)
      | (False, ix) \<Rightarrow>
          (if attempt < max_retries - 1
           then upsert_attempts later vs
                  (m\<lparr>vector_index := ix,
                     slept := slept m @ [retry_delay * (attempt + 1)]\<rparr>)
           else (Inl UpstashError, m\<lparr>vector_index := ix\<rparr>)))"

definition upsert_vector_batch ::
  "vector list \<Rightarrow> migrator \<Rightarrow> (py_exception + unit) \<times> migrator" where
  "upsert_vector_batch vs m = upsert_attempts [0..<max_retries] vs m"

text \<open>
  The vector of a chunk: \<open>chunk.metadata['vector_id']\<close> raises \<open>KeyError\<close> on a chunk
  that was never persisted. The metadata keys \<open>keywords\<close> and \<open>created_at\<close> are left out.
\<close>

definition vector_of_chunk :: "ContentChunk \<Rightarrow> py_exception + vector" where
  "vector_of_chunk chunk =
     (case metadata chunk ''vector_id'' of
        None \<Rightarrow> Inl KeyError
      | Some vid \<Rightarrow>
          Inr \<lparr>v_id = vid,
               v_metadata = (metadata chunk)
                 (''chunk_type'' \<mapsto> PStr (chunk_type chunk),
                  ''importance'' \<mapsto> PStr (importance chunk),
                  ''date_context'' \<mapsto> opt_val (date_context chunk))\<rparr>)"

text \<open>The loop over the chunks, with the vectors gathered for the current batch.\<close>

fun embed_chunks ::
  "ContentChunk list \<Rightarrow> vector list \<Rightarrow> migrator \<Rightarrow> (py_exception + unit) \<times> migrator" where
  "embed_chunks [] vectors_to_upsert m =
     (if vectors_to_upsert \<noteq> [] then upsert_vector_batch vectors_to_upsert m else (Inr (), m))"
| "embed_chunks (chunk # rest) vectors_to_upsert m =
     (case vector_of_chunk chunk of
        Inl e \<Rightarrow> (Inl e, m)
      | Inr v \<Rightarrow>
          (let vectors_to_upsert' = vectors_to_upsert @ [v]
           in if batch_size \<le> length vectors_to_upsert'
              then (case upsert_vector_batch vectors_to_upsert' m of
                      (Inl e, m') \<Rightarrow> (Inl e, m')
                    | (Inr _, m') \<Rightarrow> embed_chunks rest [] m')
              else embed_chunks rest vectors_to_upsert' m))"

definition clear_index :: "vector_index \<Rightarrow> vector_index" where
  "clear_index ix = (if clear_raises ix then ix else ix\<lparr>vectors := []\<rparr>)"

definition generate_vector_embeddings ::
  "ContentChunk list \<Rightarrow> migrator \<Rightarrow> (py_exception + unit) \<times> migrator" where
  "generate_vector_embeddings chunks m =
     (case embed_chunks chunks [] (m\<lparr>vector_index := clear_index (vector_index m)\<rparr>) of
        (Inl e, m') \<Rightarrow>
          (Inl e, m'\<lparr>stats := (stats m')\<lparr>errors_encountered :=
                                Suc (errors_encountered (stats m'))\<rparr>\<rparr>)
      | (Inr u, m') \<Rightarrow> (Inr u, m'))"

subsection \<open>The pipeline (\<open>main\<close>)\<close>

text \<open>
  The body of the \<open>with\<close> block of \<open>main\<close>, on a file that holds the document
  \<open>json_data\<close>: the stages in order, the first exception ending the run.
\<close>

definition run_stages ::
  "(ustring \<Rightarrow> ustring \<Rightarrow> datetime option) \<Rightarrow> document \<Rightarrow> migrator \<Rightarrow>
   (py_exception + unit) \<times> migrator" where
  "run_stages strp json_data m =
     (case fst (load_and_validate_json (Parsed (document_json json_data))) of
        Inl e \<Rightarrow> (Inl e, m)
      | Inr _ \<Rightarrow>
          (case doc_personalInfo json_data of
             None \<Rightarrow> (Inl KeyError, m)
           | Some personal \<Rightarrow>
               (case insert_professional_data personal m of
                  (professional_id, m1) \<Rightarrow>
                    (let m2 = (case doc_experience json_data of
                                 None \<Rightarrow> m1
                               | Some xs \<Rightarrow> insert_experiences strp xs professional_id m1);
                         m3 = (case doc_skills json_data of
                                 None \<Rightarrow> m2
                               | Some sk \<Rightarrow> insert_skills sk professional_id m2);
                         m4 = (case doc_projects json_data of
                                 None \<Rightarrow> m3
                               | Some ps \<Rightarrow> insert_projects strp ps professional_id m3);
                         m5 = (case doc_education json_data of
                                 None \<Rightarrow> m4
                               | Some es \<Rightarrow> insert_education strp es professional_id m4)
                     in (case insert_json_content json_data professional_id m5 of
                           (content_id, m6) \<Rightarrow>
                             (case insert_content_chunks
                                     (create_content_chunks json_data professional_id)
                                     professional_id m6 of
                                (chunks, m7) \<Rightarrow> generate_vector_embeddings chunks m7))))))"

text \<open>
  \<open>main\<close>: the context manager counts an exception that leaves the block, and the process
  exits with status 1 on it and 0 otherwise.
\<close>

definition main ::
  "(ustring \<Rightarrow> ustring \<Rightarrow> datetime option) \<Rightarrow> document \<Rightarrow> migrator \<Rightarrow> nat \<times> migrator" where
  "main strp json_data m =
     (case run_stages strp json_data m of
        (Inl e, m') \<Rightarrow>
          (1, m'\<lparr>stats := (stats m')\<lparr>errors_encountered :=
                            Suc (errors_encountered (stats m'))\<rparr>\<rparr>)
      | (Inr _, m') \<Rightarrow> (0, m'))"

text \<open>
  A migrator as \<open>__init__\<close> and \<open>connect_databases\<close> leave it, on a given store and
  index; the empty store; an index that holds nothing and raises as \<open>raises\<close> tells.
\<close>

definition new_stats :: MigrationStats where
  "new_stats = \<lparr>professionals_inserted = 0, experiences_inserted = 0, skills_inserted = 0,
     projects_inserted = 0, education_inserted = 0, json_content_inserted = 0,
     content_chunks_created = 0, vectors_embedded = 0, errors_encountered = 0\<rparr>"

definition new_migrator :: "database \<Rightarrow> vector_index \<Rightarrow> migrator" where
  "new_migrator db ix = \<lparr>postgres_conn = db, vector_index = ix, stats = new_stats, slept = []\<rparr>"

definition empty_database :: database where
  "empty_database = \<lparr>professionals = [], experiences = [], skills = [], projects = [],
     education = [], json_content = [], content_chunks = [], professionals_seq = 0,
     json_content_seq = 0, content_chunks_seq = 0\<rparr>"

definition empty_index :: "(nat \<Rightarrow> bool) \<Rightarrow> vector_index" where
  "empty_index raises =
     \<lparr>vectors = [], upsert_calls = 0, upsert_raises = raises, clear_raises = False\<rparr>"

text \<open>
  What the loop of \<open>insert_content_chunks\<close> makes of the \<open>k\<close>-th chunk it meets, when it
  starts at index \<open>i\<close> with the sequence at \<open>seq\<close>: the chunk with its two new metadata
  entries, and the row.
\<close>

definition persisted_chunk :: "int \<Rightarrow> nat \<Rightarrow> int \<Rightarrow> nat \<times> ContentChunk \<Rightarrow> ContentChunk" where
  "persisted_chunk pid i seq kc =
     (case kc of (k, c) \<Rightarrow>
        c\<lparr>metadata := (metadata c)
            (''chunk_id'' \<mapsto> PInt (seq + 1 + int k),
             ''vector_id'' \<mapsto> PStr (make_vector_id (make_chunk_id pid (chunk_type c) (i + k))))\<rparr>)"

definition persisted_row :: "int \<Rightarrow> nat \<Rightarrow> int \<Rightarrow> nat \<times> ContentChunk \<Rightarrow> chunk_row" where
  "persisted_row pid i seq kc =
     (case kc of (k, c) \<Rightarrow> chunk_row_of pid (i + k) (seq + 1 + int k) c)"

text \<open>The number a string of decimal digits denotes.\<close>

definition decimal_value :: "ustring \<Rightarrow> nat" where
  "decimal_value ds = foldl (\<lambda>a c. 10 * a + (c - 48)) 0 ds"

text \<open>
  A small document with every section: an identity with a contact email, one experience,
  one soft skill, one completed project and one education entry.
\<close>

definition example_personal :: personal_info where
  "example_personal = empty_personal_info\<lparr>pi_name := Some (ustr ''Ada''),
     pi_contact := Some (empty_contact\<lparr>c_email := Some (ustr ''ada@example.org'')\<rparr>)\<rparr>"

definition example_document :: document where
  "example_document =
     \<lparr>doc_personalInfo = Some example_personal,
      doc_experience = Some [empty_experience\<lparr>ex_company := Some (ustr ''Acme''),
                                             ex_duration := Some (ustr ''2021-03 - Present'')\<rparr>],
      doc_skills = Some \<lparr>sk_technical = None,
                         sk_soft_skills = Some [\<lparr>ss_skill = Some (ustr ''Writing''),
                           ss_name = None, ss_evidence = None, ss_examples = None\<rparr>]\<rparr>,
      doc_projects = Some [empty_project\<lparr>pr_status := Some (ustr ''completed'')\<rparr>],
      doc_education = Some [empty_education_entry]\<rparr>"


section \<open>The mock confidence score (\<open>api_server.py\<close>)\<close>

text \<open>
  Python's \<open>float\<close> is the IEEE 754 binary64 format. The values of
  \<open>calculate_mock_confidence\<close> lie strictly between 0 and 1, so a double is modelled as the
  rational it denotes, and \<open>to_double\<close> rounds a rational in that range to the nearest
  double, ties to the even significand: with \<open>k\<close> the number of doublings that bring
  \<open>x\<close> into \<open>[1/2, 1)\<close>, the doubles around \<open>x\<close> are the multiples of \<open>2^-(53 + k)\<close>.
  A decimal literal denotes the double nearest to it, and \<open>+\<close> and \<open>-\<close> round their exact
  result.
\<close>

fun binade :: "nat \<Rightarrow> rat \<Rightarrow> nat" where
  "binade 0 x = 0"
| "binade (Suc fuel) x = (if 1 / 2 \<le> x then 0 else Suc (binade fuel (2 * x)))"

definition round_half_even :: "rat \<Rightarrow> int" where
  "round_half_even q =
     (let f = \<lfloor>q\<rfloor>; d = q - of_int f
      in if d < 1 / 2 then f
         else if 1 / 2 < d then f + 1
         else if even f then f else f + 1)"

definition to_double :: "rat \<Rightarrow> rat" where
  "to_double x =
     (let k = binade 1022 x
      in of_int (round_half_even (x * 2 ^ (53 + k))) / 2 ^ (53 + k))"

definition float_add :: "rat \<Rightarrow> rat \<Rightarrow> rat" where
  "float_add a b = to_double (a + b)"

definition float_sub :: "rat \<Rightarrow> rat \<Rightarrow> rat" where
  "float_sub a b = to_double (a - b)"

definition technical_terms :: "ustring list" where
  "technical_terms =
     map ustr [''database'', ''vector'', ''embedding'', ''sql'', ''performance'', ''latency'']"

definition calculate_mock_confidence :: "ustring \<Rightarrow> rat" where
  "calculate_mock_confidence query =
     (let base_confidence = to_double (85 / 100)
      in if length query < 10
         then max (to_double (6 / 10)) (float_sub base_confidence (to_double (2 / 10)))
         else if 50 < length query
         then min (to_double (95 / 100)) (float_add base_confidence (to_double (1 / 10)))
         else if list_ex (\<lambda>term. contains term (lower query)) technical_terms
         then min (to_double (92 / 100)) (float_add base_confidence (to_double (7 / 100)))
         else base_confidence)"

section \<open>Properties of the string functions\<close>


lemma split_not_Nil: "split sep s \<noteq> []"
proof (cases s)
  case Nil
  then show ?thesis by simp
next
  case (Cons c cs)
  then show ?thesis by (simp split: list.split)
qed

lemma split_without_sep: "\<not> contains sep s \<Longrightarrow> split sep s = [s]"
proof (induction s)
  case Nil
  then show ?case by simp
next
  case (Cons c cs)
  from Cons.prems have np: "\<not> prefix sep (c # cs)" and nc: "\<not> contains sep cs"
    by simp_all
  from Cons.IH [OF nc] np show ?case
    by simp
qed

lemma split_with_sep:
  "sep \<noteq> [] \<Longrightarrow> contains sep s \<Longrightarrow> \<exists>a b rest. split sep s = a # b # rest"
proof (induction s)
  case Nil
  then show ?case by simp
next
  case (Cons c cs)
  show ?case
  proof (cases "prefix sep (c # cs)")
    case True
    obtain p ps where "split sep (drop (length sep) (c # cs)) = p # ps"
      using split_not_Nil [of sep "drop (length sep) (c # cs)"]
      by (cases "split sep (drop (length sep) (c # cs))") blast+
    with True Cons.prems(1) have "split sep (c # cs) = [] # p # ps"
      by (simp only: split.simps if_True simp_thms)
    then show ?thesis by blast
  next
    case False
    with Cons.prems(2) have "contains sep cs" by simp
    with Cons.IH Cons.prems(1) obtain a b rest where "split sep cs = a # b # rest" by blast
    with False have "split sep (c # cs) = (c # a) # b # rest"
      by (simp only: split.simps if_False simp_thms list.case)
    then show ?thesis by blast
  qed
qed

lemma prefix_map_agree:
  "\<forall>c. g c \<in> set n \<or> h c \<in> set n \<longrightarrow> g c = h c \<Longrightarrow> set m \<subseteq> set n \<Longrightarrow>
   prefix m (map g s) = prefix m (map h s)"
proof (induction m arbitrary: s)
  case Nil
  then show ?case by simp
next
  case (Cons a m)
  show ?case
  proof (cases s)
    case Nil
    then show ?thesis by simp
  next
    case (Cons c cs)
    have am: "a \<in> set n" "set m \<subseteq> set n" using Cons.prems(2) by auto
    have "g c = a \<longleftrightarrow> h c = a" using Cons.prems(1) am(1) by metis
    moreover have "prefix m (map g cs) = prefix m (map h cs)"
      using Cons.IH [OF Cons.prems(1) am(2)] .
    ultimately show ?thesis using Cons by auto
  qed
qed

lemma contains_map_agree:
  assumes "\<forall>c. g c \<in> set n \<or> h c \<in> set n \<longrightarrow> g c = h c"
  shows "contains n (map g s) = contains n (map h s)"
proof (induction s)
  case Nil
  show ?case by simp
next
  case (Cons c s)
  have "prefix n (map g (c # s)) = prefix n (map h (c # s))"
    using prefix_map_agree [OF assms, of n "c # s"] by simp
  with Cons show ?case by simp
qed

lemma normalize_dashes_idem: "normalize_dashes (normalize_dashes s) = normalize_dashes s"
  by (simp add: normalize_dashes_def replace1_def en_dash_def em_dash_def hyphen_def)

lemma normalize_dashes_Nil: "normalize_dashes s = [] \<longleftrightarrow> s = []"
  by (simp add: normalize_dashes_def replace1_def)

lemmas str_defs = ustr_def lower_def lower_cp_def normalize_dashes_def replace1_def en_dash_def
  em_dash_def hyphen_def strip_def is_space_def
lemmas date_defs = parse_date_def formats_def strptime_def is_digit_def digit_val_def
  decimal_zeros_def
  month_names_def month_abbrs_def

section \<open>Properties of \<open>parse_duration\<close> and \<open>parse_date\<close>\<close>

text \<open>
  A year in fullwidth digits is read as a year; a month number in fullwidth digits is not
  a month number.
\<close>

lemma strptime_fullwidth_digits:
  "strptime [65298, 65296, 65298, 65297] (ustr ''%Y'')
     = Some \<lparr>dt_year = 2021, dt_month = 1, dt_day = 1\<rparr>"
  "strptime (ustr ''2021-'' @ [65296, 65299]) (ustr ''%Y-%m'') = None"
  by (simp_all add: str_defs date_defs)

lemma set_present: "set (ustr ''present'') = {112, 114, 101, 115, 110, 116}"
  by (simp add: ustr_def insert_commute)

lemma set_current: "set (ustr ''current'') = {99, 117, 114, 101, 110, 116}"
  by (simp add: ustr_def insert_commute)

lemma contains_lower_normalize:
  assumes "45 \<notin> set n" "8211 \<notin> set n" "8212 \<notin> set n"
  shows "contains n (lower (normalize_dashes s)) = contains n (lower s)"
proof -
  let ?f = "\<lambda>c. lower_cp (if (if c = en_dash then hyphen else c) = em_dash then hyphen
                            else (if c = en_dash then hyphen else c))"
  have eq: "map lower_cp (normalize_dashes s) = map ?f s"
    by (simp add: normalize_dashes_def replace1_def)
  have agree: "\<forall>c. ?f c \<in> set n \<or> lower_cp c \<in> set n \<longrightarrow> ?f c = lower_cp c"
  proof (intro allI impI)
    fix c
    assume h: "?f c \<in> set n \<or> lower_cp c \<in> set n"
    show "?f c = lower_cp c"
    proof (cases "c = 8211 \<or> c = 8212")
      case True
      then have "?f c = 45" "lower_cp c = c"
        by (auto simp add: en_dash_def em_dash_def hyphen_def lower_cp_def)
      with h True assms show ?thesis by auto
    next
      case False
      then show ?thesis by (simp add: en_dash_def em_dash_def hyphen_def)
    qed
  qed
  have "contains n (map ?f s) = contains n (map lower_cp s)"
    by (rule contains_map_agree [OF agree])
  then show ?thesis by (simp only: lower_def eq)
qed

lemma parse_duration_normalize:
  "parse_duration strp (normalize_dashes s) = parse_duration strp s"
proof -
  have p: "contains (ustr ''present'') (lower (normalize_dashes s)) = contains (ustr ''present'') (lower s)"
    by (rule contains_lower_normalize) (simp_all add: set_present)
  have c: "contains (ustr ''current'') (lower (normalize_dashes s)) = contains (ustr ''current'') (lower s)"
    by (rule contains_lower_normalize) (simp_all add: set_current)
  show ?thesis
    by (simp only: parse_duration_def normalize_dashes_idem normalize_dashes_Nil p c)
qed

lemma try_formats_None: "\<forall>fmt\<in>set fmts. strp d fmt = None \<Longrightarrow> try_formats strp fmts d = None"
  by (induction fmts) simp_all

lemma sep_not_Nil: "ustr '' - '' \<noteq> []"
  by (simp add: ustr_def)

lemma parse_duration_ongoing:
  assumes "contains (ustr '' - '') (normalize_dashes s)"
    and "contains (ustr ''present'') (lower s) \<or> contains (ustr ''current'') (lower s)"
  shows "parse_duration strp s =
    (parse_date strp (strip (hd (split (ustr '' - '') (normalize_dashes s)))), None, True)"
proof -
  obtain a b rest where sp: "split (ustr '' - '') (normalize_dashes s) = a # b # rest"
    using split_with_sep [OF sep_not_Nil assms(1)] by blast
  have "normalize_dashes s \<noteq> []" using assms(1) sep_not_Nil by (cases "normalize_dashes s") auto
  then have "s \<noteq> []" by (simp add: normalize_dashes_Nil)
  then show ?thesis using assms(2) sp by (simp add: parse_duration_def Let_def)
qed

lemma parse_duration_unparseable:
  assumes "\<forall>part\<in>set (take 2 (split (ustr '' - '') (normalize_dashes s))).
             \<forall>fmt\<in>set formats. strp (strip part) fmt = None"
  shows "fst (parse_duration strp s) = None \<and> fst (snd (parse_duration strp s)) = None"
proof (cases "split (ustr '' - '') (normalize_dashes s)")
  case Nil
  then show ?thesis by (simp add: parse_duration_def Let_def)
next
  case (Cons a ps)
  show ?thesis
  proof (cases ps)
    case Nil
    with Cons show ?thesis by (simp add: parse_duration_def Let_def)
  next
    case (Cons b rest)
    with \<open>split (ustr '' - '') (normalize_dashes s) = a # ps\<close>
    have sp: "split (ustr '' - '') (normalize_dashes s) = a # b # rest" by simp
    have "\<forall>fmt\<in>set formats. strp (strip a) fmt = None"
      and "\<forall>fmt\<in>set formats. strp (strip b) fmt = None"
      using assms sp by simp_all
    then have "parse_date strp (strip a) = None" and "parse_date strp (strip b) = None"
      by (simp_all add: parse_date_def try_formats_None)
    with sp show ?thesis by (simp add: parse_duration_def Let_def)
  qed
qed

text \<open>
  Claim C4, as amended. \<open>parse_duration\<close> maps \<open>"2021-03 - Present"\<close> to March 2021, no
  end date and ongoing, and \<open>"2019-01 - 2020-06"\<close> to January 2019, June 2020 and not
  ongoing. En dashes and em dashes count as hyphens: normalising the dashes of the input
  beforehand changes nothing. In a string that has the separator \<open>" - "\<close> after
  normalisation, the word \<open>present\<close> or \<open>current\<close> (in any case, anywhere) makes the
  result ongoing with no end date. For any input \<open>u\<close> whose date parts (the first two
  pieces of the split, stripped) match none of the formats, whatever \<open>strptime\<close> does,
  \<open>parse_duration\<close> yields no start date and no end date; and a date string that no format
  accepts yields no date from \<open>parse_date\<close>. Both functions are total: no branch of them
  raises.
\<close>

theorem parse_duration_spec:
  "parse_duration strptime (ustr ''2021-03 - Present'')
     = (Some \<lparr>dt_year = 2021, dt_month = 3, dt_day = 1\<rparr>, None, True)
   \<and> parse_duration strptime (ustr ''2019-01 - 2020-06'')
     = (Some \<lparr>dt_year = 2019, dt_month = 1, dt_day = 1\<rparr>,
        Some \<lparr>dt_year = 2020, dt_month = 6, dt_day = 1\<rparr>, False)
   \<and> parse_duration strp (normalize_dashes s) = parse_duration strp s
   \<and> (contains (ustr '' - '') (normalize_dashes s)
        \<and> (contains (ustr ''present'') (lower s) \<or> contains (ustr ''current'') (lower s))
      \<longrightarrow> snd (parse_duration strp s) = (None, True))
   \<and> ((\<forall>part\<in>set (take 2 (split (ustr '' - '') (normalize_dashes u))).
          \<forall>fmt\<in>set formats. strp (strip part) fmt = None)
      \<longrightarrow> fst (parse_duration strp u) = None \<and> fst (snd (parse_duration strp u)) = None)
   \<and> ((\<forall>fmt\<in>set formats. strp d fmt = None) \<longrightarrow> parse_date strp d = None)"
proof -
  have a: "parse_duration strptime (ustr ''2021-03 - Present'')
     = (Some \<lparr>dt_year = 2021, dt_month = 3, dt_day = 1\<rparr>, None, True)"
    by (simp add: parse_duration_def str_defs date_defs)
  have b: "parse_duration strptime (ustr ''2019-01 - 2020-06'')
     = (Some \<lparr>dt_year = 2019, dt_month = 1, dt_day = 1\<rparr>,
        Some \<lparr>dt_year = 2020, dt_month = 6, dt_day = 1\<rparr>, False)"
    by (simp add: parse_duration_def str_defs date_defs)
  have c: "contains (ustr '' - '') (normalize_dashes s)
        \<and> (contains (ustr ''present'') (lower s) \<or> contains (ustr ''current'') (lower s))
      \<longrightarrow> snd (parse_duration strp s) = (None, True)"
    using parse_duration_ongoing [of s strp] by simp
  have d: "(\<forall>fmt\<in>set formats. strp d fmt = None) \<longrightarrow> parse_date strp d = None"
    using try_formats_None [of formats strp d] by (simp add: parse_date_def)
  have e: "(\<forall>part\<in>set (take 2 (split (ustr '' - '') (normalize_dashes u))).
          \<forall>fmt\<in>set formats. strp (strip part) fmt = None)
      \<longrightarrow> fst (parse_duration strp u) = None \<and> fst (snd (parse_duration strp u)) = None"
    using parse_duration_unparseable [of u strp] by blast
  from a b c d e parse_duration_normalize [of strp s] show ?thesis by blast
qed

theorem parse_duration_spec_witness:
  "contains (ustr '' - '') (normalize_dashes (ustr ''2021-03 - Current''))
   \<and> contains (ustr ''current'') (lower (ustr ''2021-03 - Current''))
   \<and> snd (parse_duration strptime (ustr ''2021-03 - Current'')) = (None, True)
   \<and> map (\<lambda>part. map (strptime (strip part)) formats)
        (take 2 (split (ustr '' - '') (normalize_dashes (ustr ''soon - later''))))
      = [[None, None, None, None, None, None], [None, None, None, None, None, None]]
   \<and> parse_duration strptime (ustr ''soon - later'') = (None, None, False)
   \<and> map (strptime (ustr ''soon'')) formats = [None, None, None, None, None, None]
   \<and> parse_date strptime (ustr ''soon'') = None"
  using parse_duration_spec [of strptime "ustr ''2021-03 - Current''" "ustr ''soon - later''"
      "ustr ''soon''"]
  by (simp add: parse_duration_def str_defs date_defs)

text \<open>
  Claim C4 as stated fails: the bare word \<open>"Present"\<close> contains \<open>present\<close>, and the result
  is still not ongoing, because the string has no separator.
\<close>

theorem parse_duration_bare_present:
  "contains (ustr ''present'') (lower (ustr ''Present''))
   \<and> snd (snd (parse_duration strptime (ustr ''Present''))) = False"
  by (simp add: parse_duration_def str_defs)

text \<open>
  Claim C8. A duration string that, after the dashes are normalised, does not contain the
  separator \<open>" - "\<close> parses to no start, no end and not ongoing, also when it contains
  \<open>present\<close> or \<open>current\<close>.
\<close>

theorem parse_duration_no_separator:
  "\<not> contains (ustr '' - '') (normalize_dashes s) \<Longrightarrow>
   parse_duration strp s = (None, None, False)"
  using split_without_sep [of "ustr '' - ''" "normalize_dashes s"]
  by (simp add: parse_duration_def Let_def)

theorem parse_duration_no_separator_witness:
  "\<not> contains (ustr '' - '') (normalize_dashes (ustr ''Present''))
   \<and> contains (ustr ''present'') (lower (ustr ''Present''))
   \<and> parse_duration strptime (ustr ''Present'') = (None, None, False)
   \<and> \<not> contains (ustr '' - '') (normalize_dashes (ustr ''2021''))
   \<and> parse_duration strptime (ustr ''2021'') = (None, None, False)
   \<and> \<not> contains (ustr '' - '') (normalize_dashes [])
   \<and> parse_duration strptime [] = (None, None, False)"
  using parse_duration_no_separator [of "ustr ''Present''" strptime]
    parse_duration_no_separator [of "ustr ''2021''" strptime]
    parse_duration_no_separator [of "[]" strptime]
  by (simp add: str_defs)

section \<open>Properties of the Document Loader\<close>

lemma missing_sections_obj:
  "missing_sections ss (JObj kvs) = Inr (filter (\<lambda>s. s \<notin> set (map fst kvs)) ss)"
  by (induction ss) simp_all

lemma section_lengths_obj:
  "list_all (\<lambda>s. case map_of kvs s of None \<Rightarrow> True | Some v \<Rightarrow> has_len v) ss \<Longrightarrow>
   \<exists>ns. section_lengths ss (JObj kvs) = Inr ns"
proof (induction ss)
  case Nil
  then show ?case by simp
next
  case (Cons s ss)
  then obtain ns where ns: "section_lengths ss (JObj kvs) = Inr ns" by auto
  from Cons.prems have h: "case map_of kvs s of None \<Rightarrow> True | Some v \<Rightarrow> has_len v"
    by simp
  obtain n where "py_len (case map_of kvs s of None \<Rightarrow> JArr [] | Some v \<Rightarrow> v) = Inr n"
  proof (cases "map_of kvs s")
    case None
    then show ?thesis using that by simp
  next
    case (Some v)
    with h have "has_len v" by simp
    then show ?thesis using that Some by (cases v) simp_all
  qed
  with ns show ?case by simp
qed

lemma validate_sections_obj:
  assumes "list_all (\<lambda>s. case map_of kvs s of None \<Rightarrow> True | Some v \<Rightarrow> has_len v)
             sized_sections"
  shows "fst (validate_sections (JObj kvs)) = Inr (JObj kvs)"
proof -
  obtain ns where "section_lengths sized_sections (JObj kvs) = Inr ns"
    using section_lengths_obj [OF assms] by blast
  then show ?thesis
    by (simp add: validate_sections_def missing_sections_obj Let_def)
qed

text \<open>
  Claim C7, as amended. The loader ends with \<open>FileNotFoundError\<close> when the file is
  missing, with \<open>JSONDecodeError\<close> when it is not JSON and with another exception
  (\<open>OSError\<close>) when it cannot be read: three different kinds, each logged with its own
  line or the general one. On a file that parses to an object whose \<open>experience\<close>,
  \<open>skills\<close>, \<open>projects\<close> and \<open>education\<close> values, where present, have a length (a list,
  an object or a string), it raises nothing and returns the data, whichever sections are
  present.
\<close>

theorem load_and_validate_json_spec:
  "load_and_validate_json NoSuchFile = (Inl FileNotFoundError, [ErrorFileNotFound])
   \<and> load_and_validate_json NotJson = (Inl JSONDecodeError, [ErrorInvalidJson])
   \<and> load_and_validate_json Unreadable = (Inl OSError, [ErrorLoadingJson])
   \<and> FileNotFoundError \<noteq> JSONDecodeError \<and> FileNotFoundError \<noteq> OSError
   \<and> JSONDecodeError \<noteq> OSError
   \<and> (list_all (\<lambda>s. case map_of kvs s of None \<Rightarrow> True | Some v \<Rightarrow> has_len v)
         sized_sections
      \<longrightarrow> fst (load_and_validate_json (Parsed (JObj kvs))) = Inr (JObj kvs))"
proof -
  have "list_all (\<lambda>s. case map_of kvs s of None \<Rightarrow> True | Some v \<Rightarrow> has_len v)
          sized_sections
        \<longrightarrow> fst (load_and_validate_json (Parsed (JObj kvs))) = Inr (JObj kvs)"
  proof
    assume h: "list_all (\<lambda>s. case map_of kvs s of None \<Rightarrow> True | Some v \<Rightarrow> has_len v)
                 sized_sections"
    obtain r lines where v: "validate_sections (JObj kvs) = (r, lines)"
      by (cases "validate_sections (JObj kvs)")
    with validate_sections_obj [OF h] have "r = Inr (JObj kvs)" by simp
    with v show "fst (load_and_validate_json (Parsed (JObj kvs))) = Inr (JObj kvs)" by simp
  qed
  then show ?thesis by simp
qed

theorem load_and_validate_json_spec_witness:
  "list_all (\<lambda>s. case map_of [(ustr ''personalInfo'', JObj []), (ustr ''skills'', JObj [])] s of
                   None \<Rightarrow> True | Some v \<Rightarrow> has_len v) sized_sections
   \<and> fst (load_and_validate_json
        (Parsed (JObj [(ustr ''personalInfo'', JObj []), (ustr ''skills'', JObj [])])))
     = Inr (JObj [(ustr ''personalInfo'', JObj []), (ustr ''skills'', JObj [])])"
  using load_and_validate_json_spec
    [of "[(ustr ''personalInfo'', JObj []), (ustr ''skills'', JObj [])]"]
  by (simp add: sized_sections_def ustr_def)

text \<open>
  Claim C7 as stated fails: a well-formed JSON file whose top-level value is a list, or an
  object whose \<open>experience\<close> value is a number, makes the loader raise.
\<close>

theorem load_and_validate_json_raises:
  "load_and_validate_json (Parsed (JArr []))
     = (Inl AttributeError,
        [WarnMissingSections required_sections, InfoLoaded, ErrorLoadingJson])
   \<and> load_and_validate_json (Parsed (JObj [(ustr ''experience'', JInt 5)]))
     = (Inl TypeError,
        [WarnMissingSections
           (map ustr [''personalInfo'', ''skills'', ''projects'', ''education'']),
         InfoLoaded, ErrorLoadingJson])"
  by (simp add: validate_sections_def required_sections_def sized_sections_def ustr_def)

section \<open>Properties of the Vector Upserter\<close>

lemma range_max_retries: "[0..<max_retries] = [0, 1, 2]"
  by (simp add: max_retries_def upt_rec)

lemma upsert_batch_third_try:
  assumes "upsert_raises (vector_index m) (upsert_calls (vector_index m))"
    and "upsert_raises (vector_index m) (Suc (upsert_calls (vector_index m)))"
    and "\<not> upsert_raises (vector_index m) (Suc (Suc (upsert_calls (vector_index m))))"
  shows "fst (upsert_vector_batch vs m) = Inr ()
   \<and> vectors_embedded (stats (snd (upsert_vector_batch vs m)))
       = vectors_embedded (stats m) + length vs
   \<and> slept (snd (upsert_vector_batch vs m)) = slept m @ [retry_delay * 1, retry_delay * 2]
   \<and> upsert_calls (vector_index (snd (upsert_vector_batch vs m)))
       = upsert_calls (vector_index m) + 3"
  using assms unfolding upsert_vector_batch_def range_max_retries
  by (simp add: index_upsert_def max_retries_def retry_delay_def)

lemma upsert_batch_exhausted:
  assumes "upsert_raises (vector_index m) (upsert_calls (vector_index m))"
    and "upsert_raises (vector_index m) (Suc (upsert_calls (vector_index m)))"
    and "upsert_raises (vector_index m) (Suc (Suc (upsert_calls (vector_index m))))"
  shows "fst (upsert_vector_batch vs m) = Inl UpstashError
   \<and> stats (snd (upsert_vector_batch vs m)) = stats m
   \<and> slept (snd (upsert_vector_batch vs m)) = slept m @ [retry_delay * 1, retry_delay * 2]
   \<and> postgres_conn (snd (upsert_vector_batch vs m)) = postgres_conn m
   \<and> upsert_calls (vector_index (snd (upsert_vector_batch vs m)))
       = upsert_calls (vector_index m) + 3"
  using assms unfolding upsert_vector_batch_def range_max_retries
  by (simp add: index_upsert_def max_retries_def retry_delay_def)

lemma upsert_batch_calls:
  "upsert_calls (vector_index (snd (upsert_vector_batch vs m)))
     \<le> upsert_calls (vector_index m) + 3
   \<and> upsert_calls (vector_index m)
     < upsert_calls (vector_index (snd (upsert_vector_batch vs m)))"
  unfolding upsert_vector_batch_def range_max_retries
  by (simp add: index_upsert_def max_retries_def)

lemma embed_chunks_exhausted:
  assumes "upsert_raises (vector_index m) (upsert_calls (vector_index m))"
    and "upsert_raises (vector_index m) (Suc (upsert_calls (vector_index m)))"
    and "upsert_raises (vector_index m) (Suc (Suc (upsert_calls (vector_index m))))"
    and "list_all (\<lambda>c. metadata c ''vector_id'' \<noteq> None) chunks"
    and "chunks \<noteq> [] \<or> acc \<noteq> []"
  shows "fst (embed_chunks chunks acc m) = Inl UpstashError
   \<and> stats (snd (embed_chunks chunks acc m)) = stats m"
  using assms
proof (induction chunks arbitrary: acc)
  case Nil
  then show ?case using upsert_batch_exhausted [of m acc] by simp
next
  case (Cons c cs)
  from Cons.prems(4) obtain vid where vid: "metadata c ''vector_id'' = Some vid" by auto
  then obtain v where v: "vector_of_chunk c = Inr v" by (simp add: vector_of_chunk_def)
  show ?case
  proof (cases "batch_size \<le> length (acc @ [v])")
    case True
    obtain r m' where r: "upsert_vector_batch (acc @ [v]) m = (r, m')"
      by (cases "upsert_vector_batch (acc @ [v]) m")
    with upsert_batch_exhausted [OF Cons.prems(1-3), of "acc @ [v]"]
    have "r = Inl UpstashError" "stats m' = stats m" by simp_all
    with True v r show ?thesis by (simp add: Let_def)
  next
    case False
    have "fst (embed_chunks cs (acc @ [v]) m) = Inl UpstashError
      \<and> stats (snd (embed_chunks cs (acc @ [v]) m)) = stats m"
      using Cons.IH [of "acc @ [v]"] Cons.prems by simp
    with False v show ?thesis by (simp add: Let_def)
  qed
qed

lemma generate_exhausted:
  assumes "upsert_raises (vector_index m) (upsert_calls (vector_index m))"
    and "upsert_raises (vector_index m) (Suc (upsert_calls (vector_index m)))"
    and "upsert_raises (vector_index m) (Suc (Suc (upsert_calls (vector_index m))))"
    and "list_all (\<lambda>c. metadata c ''vector_id'' \<noteq> None) chunks"
    and "chunks \<noteq> []"
  shows "fst (generate_vector_embeddings chunks m) = Inl UpstashError
   \<and> vectors_embedded (stats (snd (generate_vector_embeddings chunks m)))
       = vectors_embedded (stats m)"
proof -
  let ?m0 = "m\<lparr>vector_index := clear_index (vector_index m)\<rparr>"
  obtain r m' where r: "embed_chunks chunks [] ?m0 = (r, m')"
    by (cases "embed_chunks chunks [] ?m0")
  have "fst (embed_chunks chunks [] ?m0) = Inl UpstashError
     \<and> stats (snd (embed_chunks chunks [] ?m0)) = stats ?m0"
    by (rule embed_chunks_exhausted) (use assms in \<open>simp_all add: clear_index_def\<close>)
  with r have "r = Inl UpstashError" "stats m' = stats m" by simp_all
  with r show ?thesis by (simp add: generate_vector_embeddings_def)
qed

section \<open>Properties of the Chunk Persister\<close>

lemma insert_chunk_rows_eq:
  "insert_chunk_rows pid i cs m =
     (map (persisted_chunk pid i (content_chunks_seq (postgres_conn m))) (enumerate 0 cs),
      m\<lparr>postgres_conn := (postgres_conn m)
           \<lparr>content_chunks := content_chunks (postgres_conn m)
              @ map (persisted_row pid i (content_chunks_seq (postgres_conn m))) (enumerate 0 cs),
            content_chunks_seq := content_chunks_seq (postgres_conn m) + int (length cs)\<rparr>,
         stats := (stats m)\<lparr>content_chunks_created :=
                    content_chunks_created (stats m) + length cs\<rparr>\<rparr>)"
proof (induction cs arbitrary: i m)
  case Nil
  show ?case by simp
next
  case (Cons c cs)
  show ?case
    by (simp add: Cons.IH Let_def enumerate_Suc_eq persisted_chunk_def persisted_row_def
        chunk_row_of_def comp_def case_prod_beta add.assoc)
qed

lemma decimal_value_str_nat: "decimal_value (str_nat n) = n"
proof (induction n rule: str_nat.induct)
  case (1 n)
  show ?case
  proof (cases "n < 10")
    case True
    then show ?thesis by (simp add: str_nat.simps [of n] decimal_value_def)
  next
    case False
    with 1 have "decimal_value (str_nat (n div 10)) = n div 10" by simp
    with False show ?thesis
      by (simp add: str_nat.simps [of n] decimal_value_def)
  qed
qed

lemma str_nat_digits: "c \<in> set (str_nat n) \<Longrightarrow> 48 \<le> c \<and> c \<le> 57"
proof (induction n rule: str_nat.induct)
  case (1 n)
  show ?case
  proof (cases "n < 10")
    case True
    with 1(2) show ?thesis by (simp add: str_nat.simps [of n])
  next
    case False
    with 1 show ?thesis by (auto simp add: str_nat.simps [of n])
  qed
qed

lemma hyphen_not_in_str_nat: "45 \<notin> set (str_nat n)"
  using str_nat_digits [of 45 n] by auto

lemma last_part_unique:
  assumes "xs @ a # ys = xs' @ a # ys'" "a \<notin> set ys" "a \<notin> set ys'"
  shows "ys = ys'"
proof -
  have "takeWhile (\<lambda>c. c \<noteq> a) (rev (xs @ a # ys)) = rev ys"
    using assms(2) by (auto simp add: takeWhile_tail)
  moreover have "takeWhile (\<lambda>c. c \<noteq> a) (rev (xs' @ a # ys')) = rev ys'"
    using assms(3) by (auto simp add: takeWhile_tail)
  ultimately have "rev ys = rev ys'" using assms(1) by simp
  then show ?thesis by simp
qed

lemma make_chunk_id_index:
  assumes "make_chunk_id pid t i = make_chunk_id pid' t' j"
  shows "i = j"
proof -
  have "(ustr ''chunk-'' @ str_int pid @ ustr ''-'' @ t) @ 45 # str_nat i
      = (ustr ''chunk-'' @ str_int pid' @ ustr ''-'' @ t') @ 45 # str_nat j"
    using assms by (simp add: make_chunk_id_def ustr_def)
  then have "str_nat i = str_nat j"
    by (rule last_part_unique) (rule hyphen_not_in_str_nat)+
  then have "decimal_value (str_nat i) = decimal_value (str_nat j)" by simp
  then show ?thesis by (simp add: decimal_value_str_nat)
qed

lemma chunk_id_of_make_vector_id:
  "md \<noteq> Map.empty \<Longrightarrow> chunk_id_of_vector_id (PStr (make_vector_id cid)) (Some md) = PStr cid"
  by (simp add: chunk_id_of_vector_id_def make_vector_id_def format_pyval_def ustr_def)

text \<open>A search result without metadata, or with empty metadata, has no known chunk id.\<close>

lemma chunk_id_of_vector_id_unknown:
  "chunk_id_of_vector_id result_id None = PStr (ustr ''unknown'')"
  "chunk_id_of_vector_id result_id (Some Map.empty) = PStr (ustr ''unknown'')"
  by (simp_all add: chunk_id_of_vector_id_def)

lemma new_rows:
  "drop (length (content_chunks (postgres_conn m)))
     (content_chunks (postgres_conn (snd (insert_content_chunks chunks pid m))))
   = map (persisted_row pid 0 (content_chunks_seq (postgres_conn m))) (enumerate 0 chunks)"
  by (simp add: insert_content_chunks_def insert_chunk_rows_eq)

text \<open>
  Claim C1. For the \<open>i\<close>-th chunk handed to \<open>insert_content_chunks\<close>, the row inserted
  for it has the chunk id \<open>chunk-{professional_id}-{chunk_type}-{i}\<close> and the vector id
  \<open>"upstash-" + chunk_id\<close>. The vector id starts with \<open>upstash-\<close>, and cutting these 8
  characters off gives the chunk id back. So does the reader of the vector store on any
  search result that carries this vector id and metadata that is not empty (on empty
  metadata the reader answers \<open>'unknown'\<close>, whatever the id); in particular on the vector
  the Vector Upserter builds from the persisted chunk, whose id is this vector id. The
  row id is the next value of the sequence, and the chunk's metadata field \<open>chunk_id\<close>
  holds that row id. One row is inserted per chunk.
\<close>

theorem insert_content_chunks_ids:
  assumes "i < length chunks"
  shows "kr_chunk_id (content_chunks (postgres_conn (snd (insert_content_chunks chunks pid m)))
                      ! (length (content_chunks (postgres_conn m)) + i))
           = ustr ''chunk-'' @ str_int pid @ ustr ''-'' @ chunk_type (chunks ! i) @ ustr ''-''
             @ str_nat i
       \<and> kr_vector_id (content_chunks (postgres_conn (snd (insert_content_chunks chunks pid m)))
                      ! (length (content_chunks (postgres_conn m)) + i))
           = ustr ''upstash-''
             @ kr_chunk_id (content_chunks (postgres_conn (snd (insert_content_chunks chunks pid m)))
                            ! (length (content_chunks (postgres_conn m)) + i))
       \<and> prefix (ustr ''upstash-'')
           (kr_vector_id (content_chunks (postgres_conn (snd (insert_content_chunks chunks pid m)))
                          ! (length (content_chunks (postgres_conn m)) + i)))
       \<and> drop 8
           (kr_vector_id (content_chunks (postgres_conn (snd (insert_content_chunks chunks pid m)))
                          ! (length (content_chunks (postgres_conn m)) + i)))
           = kr_chunk_id (content_chunks (postgres_conn (snd (insert_content_chunks chunks pid m)))
                          ! (length (content_chunks (postgres_conn m)) + i))
       \<and> (md \<noteq> Map.empty \<longrightarrow>
           chunk_id_of_vector_id
             (PStr (kr_vector_id
                (content_chunks (postgres_conn (snd (insert_content_chunks chunks pid m)))
                 ! (length (content_chunks (postgres_conn m)) + i)))) (Some md)
           = PStr (kr_chunk_id
                    (content_chunks (postgres_conn (snd (insert_content_chunks chunks pid m)))
                     ! (length (content_chunks (postgres_conn m)) + i))))
       \<and> (\<exists>v. vector_of_chunk (fst (insert_content_chunks chunks pid m) ! i) = Inr v
              \<and> v_id v = PStr (kr_vector_id
                    (content_chunks (postgres_conn (snd (insert_content_chunks chunks pid m)))
                     ! (length (content_chunks (postgres_conn m)) + i)))
              \<and> chunk_id_of_vector_id (v_id v) (Some (v_metadata v))
                  = PStr (kr_chunk_id
                      (content_chunks (postgres_conn (snd (insert_content_chunks chunks pid m)))
                       ! (length (content_chunks (postgres_conn m)) + i))))
       \<and> kr_id (content_chunks (postgres_conn (snd (insert_content_chunks chunks pid m)))
                ! (length (content_chunks (postgres_conn m)) + i))
           = content_chunks_seq (postgres_conn m) + 1 + int i
       \<and> metadata (fst (insert_content_chunks chunks pid m) ! i) ''chunk_id''
           = Some (PInt (kr_id
                (content_chunks (postgres_conn (snd (insert_content_chunks chunks pid m)))
                 ! (length (content_chunks (postgres_conn m)) + i))))
       \<and> length (content_chunks (postgres_conn (snd (insert_content_chunks chunks pid m))))
           = length (content_chunks (postgres_conn m)) + length chunks"
proof -
  let ?row = "content_chunks (postgres_conn (snd (insert_content_chunks chunks pid m)))
                ! (length (content_chunks (postgres_conn m)) + i)"
  let ?chunk = "fst (insert_content_chunks chunks pid m) ! i"
  let ?cid = "make_chunk_id pid (chunk_type (chunks ! i)) i"
  have row: "?row = chunk_row_of pid i (content_chunks_seq (postgres_conn m) + 1 + int i)
                      (chunks ! i)"
    using assms
    by (simp add: insert_content_chunks_def insert_chunk_rows_eq nth_append persisted_row_def nth_enumerate_eq)
  have pc: "?chunk = persisted_chunk pid 0 (content_chunks_seq (postgres_conn m)) (i, chunks ! i)"
    using assms
    by (simp add: insert_content_chunks_def insert_chunk_rows_eq nth_enumerate_eq)
  have chunk: "metadata ?chunk ''chunk_id''
      = Some (PInt (content_chunks_seq (postgres_conn m) + 1 + int i))"
    unfolding pc by (simp add: persisted_chunk_def)
  have len: "length (content_chunks (postgres_conn (snd (insert_content_chunks chunks pid m))))
           = length (content_chunks (postgres_conn m)) + length chunks"
    by (simp add: insert_content_chunks_def insert_chunk_rows_eq)
  have cid: "kr_chunk_id ?row = ?cid"
    unfolding row by (simp add: chunk_row_of_def Let_def)
  have vid: "kr_vector_id ?row = make_vector_id ?cid"
    unfolding row by (simp add: chunk_row_of_def Let_def)
  have a: "kr_chunk_id ?row = ustr ''chunk-'' @ str_int pid @ ustr ''-'' @ chunk_type (chunks ! i)
             @ ustr ''-'' @ str_nat i"
    unfolding cid by (simp add: make_chunk_id_def)
  have b: "kr_vector_id ?row = ustr ''upstash-'' @ kr_chunk_id ?row"
    unfolding cid vid by (simp add: make_vector_id_def)
  have c1: "prefix (ustr ''upstash-'') (kr_vector_id ?row)"
    unfolding b by simp
  have c2: "drop 8 (kr_vector_id ?row) = kr_chunk_id ?row"
    unfolding b by (simp add: ustr_def)
  have c3: "md \<noteq> Map.empty \<longrightarrow>
      chunk_id_of_vector_id (PStr (kr_vector_id ?row)) (Some md) = PStr (kr_chunk_id ?row)"
    unfolding cid vid by (simp add: chunk_id_of_make_vector_id)
  have v: "vector_of_chunk ?chunk
      = Inr \<lparr>v_id = PStr (make_vector_id ?cid),
             v_metadata = (metadata ?chunk)
               (''chunk_type'' \<mapsto> PStr (chunk_type ?chunk),
                ''importance'' \<mapsto> PStr (importance ?chunk),
                ''date_context'' \<mapsto> opt_val (date_context ?chunk))\<rparr>"
    unfolding pc by (simp add: vector_of_chunk_def persisted_chunk_def)
  have c4: "\<exists>v. vector_of_chunk ?chunk = Inr v \<and> v_id v = PStr (kr_vector_id ?row)
      \<and> chunk_id_of_vector_id (v_id v) (Some (v_metadata v)) = PStr (kr_chunk_id ?row)"
    unfolding v cid vid by (simp add: chunk_id_of_make_vector_id)
  have d: "kr_id ?row = content_chunks_seq (postgres_conn m) + 1 + int i"
    unfolding row by (simp add: chunk_row_of_def Let_def)
  from a b c1 c2 c3 c4 d chunk len show ?thesis by simp
qed

theorem insert_content_chunks_ids_witness:
  "(1::nat) < length [\<lparr>metadata = Map.empty, chunk_type = ustr ''experience'',
                       importance = ustr ''high'', date_context = None\<rparr>,
                      \<lparr>metadata = Map.empty, chunk_type = ustr ''skills'',
                       importance = ustr ''high'', date_context = None\<rparr>]
   \<and> kr_chunk_id (content_chunks (postgres_conn (snd (insert_content_chunks
          [\<lparr>metadata = Map.empty, chunk_type = ustr ''experience'',
            importance = ustr ''high'', date_context = None\<rparr>,
           \<lparr>metadata = Map.empty, chunk_type = ustr ''skills'',
            importance = ustr ''high'', date_context = None\<rparr>]
          7 (new_migrator empty_database (empty_index (\<lambda>k. False)))))) ! 1)
     = ustr ''chunk-7-skills-1''
   \<and> kr_vector_id (content_chunks (postgres_conn (snd (insert_content_chunks
          [\<lparr>metadata = Map.empty, chunk_type = ustr ''experience'',
            importance = ustr ''high'', date_context = None\<rparr>,
           \<lparr>metadata = Map.empty, chunk_type = ustr ''skills'',
            importance = ustr ''high'', date_context = None\<rparr>]
          7 (new_migrator empty_database (empty_index (\<lambda>k. False)))))) ! 1)
     = ustr ''upstash-chunk-7-skills-1''
   \<and> [''content_type'' \<mapsto> PStr (ustr ''skills'')] \<noteq> Map.empty
   \<and> chunk_id_of_vector_id (PStr (ustr ''upstash-chunk-7-skills-1''))
        (Some [''content_type'' \<mapsto> PStr (ustr ''skills'')])
     = PStr (ustr ''chunk-7-skills-1'')
   \<and> metadata (fst (insert_content_chunks
          [\<lparr>metadata = Map.empty, chunk_type = ustr ''experience'',
            importance = ustr ''high'', date_context = None\<rparr>,
           \<lparr>metadata = Map.empty, chunk_type = ustr ''skills'',
            importance = ustr ''high'', date_context = None\<rparr>]
          7 (new_migrator empty_database (empty_index (\<lambda>k. False)))) ! 1) ''chunk_id''
     = Some (PInt 2)"
  using insert_content_chunks_ids
    [of 1 "[\<lparr>metadata = Map.empty, chunk_type = ustr ''experience'',
              importance = ustr ''high'', date_context = None\<rparr>,
             \<lparr>metadata = Map.empty, chunk_type = ustr ''skills'',
              importance = ustr ''high'', date_context = None\<rparr>]"
        7 "new_migrator empty_database (empty_index (\<lambda>k. False))"
        "[''content_type'' \<mapsto> PStr (ustr ''skills'')]"]
  by (simp add: new_migrator_def empty_database_def ustr_def str_int_def str_nat.simps
      chunk_id_of_vector_id_def format_pyval_def)

lemma make_vector_id_inj: "make_vector_id a = make_vector_id b \<Longrightarrow> a = b"
  by (simp add: make_vector_id_def)

text \<open>
  Claim C9. The chunk ids written by one call of \<open>insert_content_chunks\<close> are pairwise
  distinct, and so are the vector ids: the index in the id is the position of the chunk in
  the whole list, whatever its type.
\<close>

theorem chunk_ids_distinct:
  "distinct (map kr_chunk_id
      (drop (length (content_chunks (postgres_conn m)))
         (content_chunks (postgres_conn (snd (insert_content_chunks chunks pid m))))))
   \<and> distinct (map kr_vector_id
      (drop (length (content_chunks (postgres_conn m)))
         (content_chunks (postgres_conn (snd (insert_content_chunks chunks pid m))))))
   \<and> map kr_chunk_id
      (drop (length (content_chunks (postgres_conn m)))
         (content_chunks (postgres_conn (snd (insert_content_chunks chunks pid m)))))
     = map (\<lambda>(i, c). make_chunk_id pid (chunk_type c) i) (enumerate 0 chunks)"
proof -
  let ?rows = "map (persisted_row pid 0 (content_chunks_seq (postgres_conn m)))
                 (enumerate 0 chunks)"
  have cid: "kr_chunk_id (?rows ! i) = make_chunk_id pid (chunk_type (chunks ! i)) i"
    if "i < length chunks" for i
    using that by (simp add: persisted_row_def nth_enumerate_eq chunk_row_of_def Let_def)
  have vid: "kr_vector_id (?rows ! i)
      = make_vector_id (make_chunk_id pid (chunk_type (chunks ! i)) i)"
    if "i < length chunks" for i
    using that by (simp add: persisted_row_def nth_enumerate_eq chunk_row_of_def Let_def)
  have len: "length ?rows = length chunks" by simp
  have d1: "distinct (map kr_chunk_id ?rows)"
    unfolding distinct_conv_nth
  proof (intro allI impI)
    fix i j
    assume i: "i < length (map kr_chunk_id ?rows)" and j: "j < length (map kr_chunk_id ?rows)"
      and ne: "i \<noteq> j"
    from i j have i': "i < length chunks" and j': "j < length chunks" by simp_all
    have "map kr_chunk_id ?rows ! i = kr_chunk_id (?rows ! i)"
      using i' by simp
    moreover have "map kr_chunk_id ?rows ! j = kr_chunk_id (?rows ! j)"
      using j' by simp
    ultimately show "map kr_chunk_id ?rows ! i \<noteq> map kr_chunk_id ?rows ! j"
      using cid [OF i'] cid [OF j'] ne make_chunk_id_index by metis
  qed
  have d2: "distinct (map kr_vector_id ?rows)"
    unfolding distinct_conv_nth
  proof (intro allI impI)
    fix i j
    assume i: "i < length (map kr_vector_id ?rows)" and j: "j < length (map kr_vector_id ?rows)"
      and ne: "i \<noteq> j"
    from i j have i': "i < length chunks" and j': "j < length chunks" by simp_all
    have "map kr_vector_id ?rows ! i = kr_vector_id (?rows ! i)"
      using i' by simp
    moreover have "map kr_vector_id ?rows ! j = kr_vector_id (?rows ! j)"
      using j' by simp
    ultimately show "map kr_vector_id ?rows ! i \<noteq> map kr_vector_id ?rows ! j"
      using vid [OF i'] vid [OF j'] ne make_chunk_id_index make_vector_id_inj by metis
  qed
  have e: "map kr_chunk_id ?rows
      = map (\<lambda>(i, c). make_chunk_id pid (chunk_type c) i) (enumerate 0 chunks)"
    by (simp add: persisted_row_def chunk_row_of_def Let_def case_prod_beta)
  from d1 d2 e show ?thesis unfolding new_rows by blast
qed

theorem chunk_ids_distinct_witness:
  "map kr_chunk_id (content_chunks (postgres_conn (snd (insert_content_chunks
      [\<lparr>metadata = Map.empty, chunk_type = ustr ''experience'',
        importance = ustr ''high'', date_context = None\<rparr>,
       \<lparr>metadata = Map.empty, chunk_type = ustr ''experience'',
        importance = ustr ''high'', date_context = None\<rparr>]
      7 (new_migrator empty_database (empty_index (\<lambda>k. False)))))))
     = [ustr ''chunk-7-experience-0'', ustr ''chunk-7-experience-1'']
   \<and> distinct (map kr_chunk_id (content_chunks (postgres_conn (snd (insert_content_chunks
      [\<lparr>metadata = Map.empty, chunk_type = ustr ''experience'',
        importance = ustr ''high'', date_context = None\<rparr>,
       \<lparr>metadata = Map.empty, chunk_type = ustr ''experience'',
        importance = ustr ''high'', date_context = None\<rparr>]
      7 (new_migrator empty_database (empty_index (\<lambda>k. False))))))))"
  using chunk_ids_distinct
    [of "new_migrator empty_database (empty_index (\<lambda>k. False))"
        "[\<lparr>metadata = Map.empty, chunk_type = ustr ''experience'',
           importance = ustr ''high'', date_context = None\<rparr>,
          \<lparr>metadata = Map.empty, chunk_type = ustr ''experience'',
           importance = ustr ''high'', date_context = None\<rparr>]" 7]
  by (simp add: new_migrator_def empty_database_def ustr_def str_int_def str_nat.simps
      make_chunk_id_def enumerate_eq_zip upt_rec)

section \<open>Properties of the mock confidence score\<close>

lemma binade_numeral:
  "binade (numeral n) x = (if 1 / 2 \<le> x then 0 else Suc (binade (pred_numeral n) (2 * x)))"
  by (simp add: numeral_eq_Suc)

lemma floor_rat_numeral: "\<lfloor>(numeral a :: rat) / numeral b\<rfloor> = numeral a div numeral b"
  using floor_divide_of_int_eq [of "numeral a" "numeral b", where ?'a = rat] by simp

lemmas float_defs = to_double_def round_half_even_def float_add_def float_sub_def
  binade_numeral floor_rat_numeral Let_def

lemma double_085: "to_double (85 / 100) = 7656119366529843 / 2 ^ 53"
  by (simp add: float_defs)

lemma double_06: "to_double (6 / 10) = 5404319552844595 / 2 ^ 53"
  by (simp add: float_defs)

lemma double_095: "to_double (95 / 100) = 8556839292003942 / 2 ^ 53"
  by (simp add: float_defs)

lemma double_092: "to_double (92 / 100) = 8286623314361713 / 2 ^ 53"
  by (simp add: float_defs)

lemma double_065: "to_double (65 / 100) = 5854679515581645 / 2 ^ 53"
  by (simp add: float_defs)

lemma double_085_minus_02:
  "float_sub (to_double (85 / 100)) (to_double (2 / 10)) = 5854679515581644 / 2 ^ 53"
  by (simp add: float_defs)

lemma double_085_plus_01:
  "float_add (to_double (85 / 100)) (to_double (1 / 10)) = 8556839292003942 / 2 ^ 53"
  by (simp add: float_defs)

lemma double_085_plus_007:
  "float_add (to_double (85 / 100)) (to_double (7 / 100)) = 8286623314361712 / 2 ^ 53"
  by (simp add: float_defs)

lemma confidence_short:
  "length q < 10 \<Longrightarrow> calculate_mock_confidence q = 5854679515581644 / 2 ^ 53"
  unfolding calculate_mock_confidence_def Let_def double_085_minus_02 double_06 by simp

lemma confidence_long:
  "50 < length q \<Longrightarrow> calculate_mock_confidence q = 8556839292003942 / 2 ^ 53"
  unfolding calculate_mock_confidence_def Let_def double_085_plus_01 double_095 by simp

lemma confidence_technical:
  "10 \<le> length q \<Longrightarrow> length q \<le> 50 \<Longrightarrow>
   list_ex (\<lambda>term. contains term (lower q)) technical_terms \<Longrightarrow>
   calculate_mock_confidence q = 8286623314361712 / 2 ^ 53"
  unfolding calculate_mock_confidence_def Let_def double_085_plus_007 double_092 by simp

lemma confidence_other:
  "10 \<le> length q \<Longrightarrow> length q \<le> 50 \<Longrightarrow>
   \<not> list_ex (\<lambda>term. contains term (lower q)) technical_terms \<Longrightarrow>
   calculate_mock_confidence q = 7656119366529843 / 2 ^ 53"
  unfolding calculate_mock_confidence_def Let_def double_085 by simp

lemma confidence_cases:
  "calculate_mock_confidence q \<in>
     {5854679515581644 / 2 ^ 53, 8556839292003942 / 2 ^ 53,
      8286623314361712 / 2 ^ 53, 7656119366529843 / 2 ^ 53}"
proof -
  consider "length q < 10" | "50 < length q"
    | "10 \<le> length q" "length q \<le> 50"
      "list_ex (\<lambda>term. contains term (lower q)) technical_terms"
    | "10 \<le> length q" "length q \<le> 50"
      "\<not> list_ex (\<lambda>term. contains term (lower q)) technical_terms"
    by linarith
  then show ?thesis
  proof cases
    case 1
    then show ?thesis using confidence_short [of q] by simp
  next
    case 2
    then show ?thesis using confidence_long [of q] by simp
  next
    case 3
    then show ?thesis using confidence_technical [of q] by simp
  next
    case 4
    then show ?thesis using confidence_other [of q] by simp
  qed
qed

text \<open>
  Claim C10, as amended. The score is a function of the query string alone; it lies in
  \<open>[0.6, 0.95]\<close>, as reals and between the doubles \<open>0.6\<close> and \<open>0.95\<close>. A query
  shorter than 10 characters yields the double \<open>0.85 - 0.2 = 0.6499999999999999\<close>, a
  query longer than 50 characters the double \<open>0.95\<close>, a query of 10 to 50 characters
  that contains a technical term the double \<open>0.85 + 0.07 = 0.9199999999999999\<close>, and
  any other query the double \<open>0.85\<close>.
\<close>

theorem calculate_mock_confidence_spec:
  "6 / 10 \<le> calculate_mock_confidence q \<and> calculate_mock_confidence q \<le> 95 / 100
   \<and> to_double (6 / 10) \<le> calculate_mock_confidence q
   \<and> calculate_mock_confidence q \<le> to_double (95 / 100)
   \<and> (length q < 10 \<longrightarrow> calculate_mock_confidence q = 5854679515581644 / 2 ^ 53)
   \<and> (50 < length q \<longrightarrow> calculate_mock_confidence q = to_double (95 / 100))
   \<and> (10 \<le> length q \<and> length q \<le> 50
        \<and> list_ex (\<lambda>term. contains term (lower q)) technical_terms
      \<longrightarrow> calculate_mock_confidence q = 8286623314361712 / 2 ^ 53)
   \<and> (10 \<le> length q \<and> length q \<le> 50
        \<and> \<not> list_ex (\<lambda>term. contains term (lower q)) technical_terms
      \<longrightarrow> calculate_mock_confidence q = to_double (85 / 100))"
proof -
  have b1: "6 / 10 \<le> calculate_mock_confidence q"
    using confidence_cases [of q] by auto
  have b2: "calculate_mock_confidence q \<le> 95 / 100"
    using confidence_cases [of q] by auto
  have b3: "to_double (6 / 10) \<le> calculate_mock_confidence q"
    unfolding double_06 using confidence_cases [of q] by auto
  have b4: "calculate_mock_confidence q \<le> to_double (95 / 100)"
    unfolding double_095 using confidence_cases [of q] by auto
  have v1: "length q < 10 \<longrightarrow> calculate_mock_confidence q = 5854679515581644 / 2 ^ 53"
    using confidence_short [of q] by blast
  have v2: "50 < length q \<longrightarrow> calculate_mock_confidence q = to_double (95 / 100)"
    unfolding double_095 using confidence_long [of q] by blast
  have v3: "10 \<le> length q \<and> length q \<le> 50
        \<and> list_ex (\<lambda>term. contains term (lower q)) technical_terms
      \<longrightarrow> calculate_mock_confidence q = 8286623314361712 / 2 ^ 53"
    using confidence_technical [of q] by blast
  have v4: "10 \<le> length q \<and> length q \<le> 50
        \<and> \<not> list_ex (\<lambda>term. contains term (lower q)) technical_terms
      \<longrightarrow> calculate_mock_confidence q = to_double (85 / 100)"
    unfolding double_085 using confidence_other [of q] by blast
  from b1 b2 b3 b4 v1 v2 v3 v4 show ?thesis by blast
qed

theorem calculate_mock_confidence_spec_witness:
  "length (ustr ''hi'') < 10
   \<and> calculate_mock_confidence (ustr ''hi'') = 5854679515581644 / 2 ^ 53
   \<and> 10 \<le> length (ustr ''sql database'') \<and> length (ustr ''sql database'') \<le> 50
   \<and> list_ex (\<lambda>term. contains term (lower (ustr ''sql database''))) technical_terms
   \<and> calculate_mock_confidence (ustr ''sql database'') = 8286623314361712 / 2 ^ 53
   \<and> 10 \<le> length (ustr ''who are you'') \<and> length (ustr ''who are you'') \<le> 50
   \<and> \<not> list_ex (\<lambda>term. contains term (lower (ustr ''who are you''))) technical_terms
   \<and> calculate_mock_confidence (ustr ''who are you'') = to_double (85 / 100)"
  using calculate_mock_confidence_spec [of "ustr ''hi''"]
    calculate_mock_confidence_spec [of "ustr ''sql database''"]
    calculate_mock_confidence_spec [of "ustr ''who are you''"]
  unfolding double_085 by (simp add: ustr_def lower_def lower_cp_def technical_terms_def)

text \<open>
  Claim C10 as stated fails: a short query does not yield \<open>0.65\<close>, neither the real
  number nor the double nearest to it, but the double one unit in the last place below.
\<close>

theorem calculate_mock_confidence_short_query:
  "calculate_mock_confidence (ustr ''hi'') \<noteq> to_double (65 / 100)
   \<and> calculate_mock_confidence (ustr ''hi'') \<noteq> 65 / 100"
proof -
  have "calculate_mock_confidence (ustr ''hi'') = 5854679515581644 / 2 ^ 53"
    by (rule confidence_short) (simp add: ustr_def)
  then show ?thesis unfolding double_065 by simp
qed

section \<open>Properties of the Chunk Builder\<close>


lemma filter_chunk_type:
  "\<forall>c\<in>set cs. chunk_type c = s \<Longrightarrow>
   filter (\<lambda>c. chunk_type c = t) cs = (if s = t then cs else [])"
  by (induction cs) auto

lemma personal_info_chunks_type:
  "\<forall>c\<in>set (personal_info_chunks d pid). chunk_type c = ustr ''personal_info''"
  by (auto simp add: personal_info_chunks_def split: option.split)

lemma map_fst_of_enumerate: "map (\<lambda>x. f (fst x)) (enumerate 0 xs) = map f [0..<length xs]"
proof -
  have "map (\<lambda>x. f (fst x)) (enumerate 0 xs) = map f (map fst (enumerate 0 xs))"
    by (simp only: map_map comp_def)
  also have "\<dots> = map f [0..<length xs]"
    by simp
  finally show ?thesis .
qed

lemma map_snd_of_enumerate: "map (\<lambda>x. f (snd x)) (enumerate 0 xs) = map f xs"
proof -
  have "map (\<lambda>x. f (snd x)) (enumerate 0 xs) = map f (map snd (enumerate 0 xs))"
    by (simp only: map_map comp_def)
  also have "\<dots> = map f xs"
    by simp
  finally show ?thesis .
qed

lemma experience_chunks_type:
  "\<forall>c\<in>set (experience_chunks d pid). chunk_type c = ustr ''experience''"
  by (auto simp add: experience_chunks_def experience_chunk_def)

lemma skills_chunks_type:
  "\<forall>c\<in>set (skills_chunks d pid). chunk_type c = ustr ''skills''"
  by (auto simp add: skills_chunks_def technical_skills_chunk_def soft_skills_chunk_def Let_def
      split: option.split)

lemma project_chunks_type:
  "\<forall>c\<in>set (project_chunks d pid). chunk_type c = ustr ''project''"
  by (auto simp add: project_chunks_def project_chunk_def)

lemma education_chunks_type:
  "\<forall>c\<in>set (education_chunks d pid). chunk_type c = ustr ''education''"
  by (auto simp add: education_chunks_def education_chunk_def)

lemma chunk_type_names:
  "ustr ''personal_info'' \<noteq> ustr ''experience''" "ustr ''personal_info'' \<noteq> ustr ''skills''"
  "ustr ''personal_info'' \<noteq> ustr ''project''" "ustr ''personal_info'' \<noteq> ustr ''education''"
  "ustr ''experience'' \<noteq> ustr ''skills''" "ustr ''experience'' \<noteq> ustr ''project''"
  "ustr ''experience'' \<noteq> ustr ''education''" "ustr ''skills'' \<noteq> ustr ''project''"
  "ustr ''skills'' \<noteq> ustr ''education''" "ustr ''project'' \<noteq> ustr ''education''"
  "ustr ''experience'' \<noteq> ustr ''personal_info''" "ustr ''skills'' \<noteq> ustr ''personal_info''"
  "ustr ''project'' \<noteq> ustr ''personal_info''" "ustr ''education'' \<noteq> ustr ''personal_info''"
  "ustr ''skills'' \<noteq> ustr ''experience''" "ustr ''project'' \<noteq> ustr ''experience''"
  "ustr ''education'' \<noteq> ustr ''experience''" "ustr ''project'' \<noteq> ustr ''skills''"
  "ustr ''education'' \<noteq> ustr ''skills''" "ustr ''education'' \<noteq> ustr ''project''"
  by (simp_all add: ustr_def)

lemma chunks_of_type:
  "filter (\<lambda>c. chunk_type c = ustr ''personal_info'') (create_content_chunks d pid)
     = personal_info_chunks d pid"
  "filter (\<lambda>c. chunk_type c = ustr ''experience'') (create_content_chunks d pid)
     = experience_chunks d pid"
  "filter (\<lambda>c. chunk_type c = ustr ''skills'') (create_content_chunks d pid)
     = skills_chunks d pid"
  "filter (\<lambda>c. chunk_type c = ustr ''project'') (create_content_chunks d pid)
     = project_chunks d pid"
  "filter (\<lambda>c. chunk_type c = ustr ''education'') (create_content_chunks d pid)
     = education_chunks d pid"
  by (simp_all add: create_content_chunks_def
      filter_chunk_type [OF personal_info_chunks_type]
      filter_chunk_type [OF experience_chunks_type]
      filter_chunk_type [OF skills_chunks_type]
      filter_chunk_type [OF project_chunks_type]
      filter_chunk_type [OF education_chunks_type] chunk_type_names)

lemma experience_importance:
  "map importance (experience_chunks d pid)
     = map (\<lambda>i. if i < 3 then ustr ''high'' else ustr ''medium'')
         [0..<length (get_or (doc_experience d) [])]"
  using map_fst_of_enumerate
    [of "\<lambda>i. if i < 3 then ustr ''high'' else ustr ''medium''" "get_or (doc_experience d) []"]
  by (simp add: experience_chunks_def experience_chunk_def comp_def case_prod_beta)

lemma project_importance:
  "map importance (project_chunks d pid)
     = map (\<lambda>p. if pr_status p = Some (ustr ''completed'') then ustr ''high''
                 else ustr ''medium'') (get_or (doc_projects d) [])"
  using map_snd_of_enumerate
    [of "\<lambda>p. if pr_status p = Some (ustr ''completed'') then ustr ''high''
               else ustr ''medium''" "get_or (doc_projects d) []"]
  by (simp add: project_chunks_def project_chunk_def comp_def case_prod_beta)

lemma education_importance:
  "map importance (education_chunks d pid)
     = replicate (length (get_or (doc_education d) [])) (ustr ''medium'')"
  by (simp add: education_chunks_def education_chunk_def comp_def case_prod_beta
      map_replicate_const)

lemma personal_info_importance:
  "map importance (personal_info_chunks d pid)
     = replicate (length (personal_info_chunks d pid)) (ustr ''high'')"
  by (simp add: personal_info_chunks_def split: option.split)

lemma skills_importance:
  "map importance (skills_chunks d pid)
     = replicate (length (get_or (sk_technical (get_or (doc_skills d) empty_skills)) []))
         (ustr ''high'')
       @ (case sk_soft_skills (get_or (doc_skills d) empty_skills) of
            None \<Rightarrow> [] | Some soft \<Rightarrow> [ustr ''medium''])"
  by (simp add: skills_chunks_def Let_def technical_skills_chunk_def soft_skills_chunk_def
      comp_def get_or_def map_replicate_const split: option.split)

text \<open>
  Claim C5. Among the chunks \<open>create_content_chunks\<close> builds, the experience chunks are
  \<open>high\<close> at positions 0, 1 and 2 of the experience list and \<open>medium\<close> after (so the
  first four are high, high, high, medium); a project chunk is \<open>high\<close> exactly when the
  project's status is \<open>completed\<close>; the skills chunks are \<open>high\<close> for each technical
  category, followed by one \<open>medium\<close> chunk for the soft skills when there are any; the
  identity chunk is \<open>high\<close>; the education chunks are \<open>medium\<close>.
\<close>

theorem create_content_chunks_importance:
  "map importance
     (filter (\<lambda>c. chunk_type c = ustr ''experience'') (create_content_chunks d pid))
     = map (\<lambda>i. if i < 3 then ustr ''high'' else ustr ''medium'')
         [0..<length (get_or (doc_experience d) [])]
   \<and> (4 \<le> length (get_or (doc_experience d) [])
      \<longrightarrow> take 4 (map importance
            (filter (\<lambda>c. chunk_type c = ustr ''experience'') (create_content_chunks d pid)))
          = [ustr ''high'', ustr ''high'', ustr ''high'', ustr ''medium''])
   \<and> map importance
        (filter (\<lambda>c. chunk_type c = ustr ''project'') (create_content_chunks d pid))
     = map (\<lambda>p. if pr_status p = Some (ustr ''completed'') then ustr ''high''
                 else ustr ''medium'') (get_or (doc_projects d) [])
   \<and> map importance
        (filter (\<lambda>c. chunk_type c = ustr ''skills'') (create_content_chunks d pid))
     = replicate (length (get_or (sk_technical (get_or (doc_skills d) empty_skills)) []))
         (ustr ''high'')
       @ (case sk_soft_skills (get_or (doc_skills d) empty_skills) of
            None \<Rightarrow> [] | Some soft \<Rightarrow> [ustr ''medium''])
   \<and> map importance
        (filter (\<lambda>c. chunk_type c = ustr ''personal_info'') (create_content_chunks d pid))
     = replicate (length (personal_info_chunks d pid)) (ustr ''high'')
   \<and> map importance
        (filter (\<lambda>c. chunk_type c = ustr ''education'') (create_content_chunks d pid))
     = replicate (length (get_or (doc_education d) [])) (ustr ''medium'')"
proof -
  have four: "4 \<le> length (get_or (doc_experience d) [])
      \<longrightarrow> take 4 (map importance (experience_chunks d pid))
          = [ustr ''high'', ustr ''high'', ustr ''high'', ustr ''medium'']"
  proof
    assume n: "4 \<le> length (get_or (doc_experience d) [])"
    have "take 4 (map importance (experience_chunks d pid))
        = map (\<lambda>i. if i < 3 then ustr ''high'' else ustr ''medium'') [0..<4]"
      using n by (simp add: experience_importance take_map)
    also have "[0..<4] = [0, 1, 2, 3::nat]"
      by (simp add: upt_rec)
    finally show "take 4 (map importance (experience_chunks d pid))
        = [ustr ''high'', ustr ''high'', ustr ''high'', ustr ''medium'']"
      by simp
  qed
  show ?thesis
    unfolding chunks_of_type
    using four experience_importance [of d pid] project_importance [of d pid]
      skills_importance [of d pid] personal_info_importance [of d pid]
      education_importance [of d pid]
    by blast
qed

theorem create_content_chunks_importance_witness:
  "4 \<le> length (get_or (doc_experience (empty_document\<lparr>doc_experience :=
        Some [empty_experience, empty_experience, empty_experience, empty_experience]\<rparr>)) [])
   \<and> map importance (create_content_chunks (empty_document\<lparr>doc_experience :=
        Some [empty_experience, empty_experience, empty_experience, empty_experience]\<rparr>) 1)
     = [ustr ''high'', ustr ''high'', ustr ''high'', ustr ''medium'']
   \<and> take 4 (map importance (filter (\<lambda>c. chunk_type c = ustr ''experience'')
        (create_content_chunks (empty_document\<lparr>doc_experience :=
           Some [empty_experience, empty_experience, empty_experience, empty_experience]\<rparr>) 1)))
     = [ustr ''high'', ustr ''high'', ustr ''high'', ustr ''medium'']"
  using create_content_chunks_importance
    [of "empty_document\<lparr>doc_experience :=
           Some [empty_experience, empty_experience, empty_experience, empty_experience]\<rparr>" 1]
  by (simp add: empty_document_def get_or_def create_content_chunks_def
      personal_info_chunks_def experience_chunks_def experience_chunk_def skills_chunks_def
      project_chunks_def education_chunks_def empty_skills_def enumerate_eq_zip upt_rec)

section \<open>Properties of the pipeline\<close>


lemma json_field_mem:
  "(s, v) \<in> set (json_field k enc x) \<Longrightarrow> s = ustr k \<and> (\<exists>y. x = Some y \<and> v = enc y)"
  by (cases x) (simp_all add: json_field_def)

lemma personalInfo_not_sized: "ustr ''personalInfo'' \<notin> set sized_sections"
  by (simp add: sized_sections_def ustr_def)

lemma document_json_sized:
  "list_all (\<lambda>s. case map_of (json_field ''personalInfo'' personal_info_json (doc_personalInfo d)
     @ json_field ''experience'' (\<lambda>xs. JArr (map experience_json xs)) (doc_experience d)
     @ json_field ''skills'' skills_section_json (doc_skills d)
     @ json_field ''projects'' (\<lambda>xs. JArr (map project_json xs)) (doc_projects d)
     @ json_field ''education'' (\<lambda>xs. JArr (map education_entry_json xs)) (doc_education d)) s of
       None \<Rightarrow> True | Some v \<Rightarrow> has_len v) sized_sections"
  (is "list_all (\<lambda>s. case map_of ?kvs s of None \<Rightarrow> True | Some v \<Rightarrow> has_len v) _")
  unfolding list_all_iff
proof
  fix s
  assume s: "s \<in> set sized_sections"
  show "case map_of ?kvs s of None \<Rightarrow> True | Some v \<Rightarrow> has_len v"
  proof (cases "map_of ?kvs s")
    case None
    show ?thesis unfolding None by simp
  next
    case (Some v)
    then have "(s, v) \<in> set ?kvs" by (rule map_of_SomeD)
    then consider
        "(s, v) \<in> set (json_field ''personalInfo'' personal_info_json (doc_personalInfo d))"
      | "(s, v) \<in> set (json_field ''experience'' (\<lambda>xs. JArr (map experience_json xs))
                          (doc_experience d))"
      | "(s, v) \<in> set (json_field ''skills'' skills_section_json (doc_skills d))"
      | "(s, v) \<in> set (json_field ''projects'' (\<lambda>xs. JArr (map project_json xs))
                          (doc_projects d))"
      | "(s, v) \<in> set (json_field ''education'' (\<lambda>xs. JArr (map education_entry_json xs))
                          (doc_education d))"
      by auto
    then have hv: "has_len v"
    proof cases
      case 1
      then have "s = ustr ''personalInfo''" by (simp add: json_field_mem)
      with s personalInfo_not_sized show ?thesis by simp
    next
      case 2
      then show ?thesis using json_field_mem [OF 2] by auto
    next
      case 3
      then show ?thesis using json_field_mem [OF 3] by (auto simp add: skills_section_json_def)
    next
      case 4
      then show ?thesis using json_field_mem [OF 4] by auto
    next
      case 5
      then show ?thesis using json_field_mem [OF 5] by auto
    qed
    show ?thesis unfolding Some using hv by simp
  qed
qed

lemma load_document_json:
  "fst (load_and_validate_json (Parsed (document_json d))) = Inr (document_json d)"
proof -
  obtain r lines where v: "validate_sections (document_json d) = (r, lines)"
    by (cases "validate_sections (document_json d)")
  have "fst (validate_sections (document_json d)) = Inr (document_json d)"
    unfolding document_json_def by (rule validate_sections_obj) (rule document_json_sized)
  with v have "r = Inr (document_json d)" by simp
  with v show ?thesis by simp
qed

lemma insert_experience_rows_eq:
  "insert_experience_rows strp pid xs m =
     m\<lparr>postgres_conn := (postgres_conn m)\<lparr>experiences :=
          experiences (postgres_conn m) @ map (experience_row_of strp pid) xs\<rparr>,
       stats := (stats m)\<lparr>experiences_inserted :=
          experiences_inserted (stats m) + length xs\<rparr>\<rparr>"
  by (induction xs arbitrary: m) simp_all

lemma insert_skill_rows_eq:
  "insert_skill_rows rows m =
     m\<lparr>postgres_conn := (postgres_conn m)\<lparr>skills := skills (postgres_conn m) @ rows\<rparr>,
       stats := (stats m)\<lparr>skills_inserted := skills_inserted (stats m) + length rows\<rparr>\<rparr>"
  by (induction rows arbitrary: m) simp_all

lemma insert_project_rows_eq:
  "insert_project_rows strp pid xs m =
     m\<lparr>postgres_conn := (postgres_conn m)\<lparr>projects :=
          projects (postgres_conn m) @ map (project_row_of strp pid) xs\<rparr>,
       stats := (stats m)\<lparr>projects_inserted := projects_inserted (stats m) + length xs\<rparr>\<rparr>"
  by (induction xs arbitrary: m) simp_all

lemma insert_education_rows_eq:
  "insert_education_rows strp pid xs m =
     m\<lparr>postgres_conn := (postgres_conn m)\<lparr>education :=
          education (postgres_conn m) @ map (education_row_of strp pid) xs\<rparr>,
       stats := (stats m)\<lparr>education_inserted := education_inserted (stats m) + length xs\<rparr>\<rparr>"
  by (induction xs arbitrary: m) simp_all

lemma upsert_attempts_frame:
  "postgres_conn (snd (upsert_attempts as vs m)) = postgres_conn m
   \<and> upsert_raises (vector_index (snd (upsert_attempts as vs m))) = upsert_raises (vector_index m)
   \<and> clear_raises (vector_index (snd (upsert_attempts as vs m))) = clear_raises (vector_index m)"
  by (induction as arbitrary: m) (simp_all add: index_upsert_def)

lemma embed_chunks_frame:
  "postgres_conn (snd (embed_chunks cs acc m)) = postgres_conn m"
proof (induction cs arbitrary: acc m)
  case Nil
  show ?case by (simp add: upsert_vector_batch_def upsert_attempts_frame)
next
  case (Cons c cs)
  show ?case
  proof (cases "vector_of_chunk c")
    case (Inl e)
    then show ?thesis by simp
  next
    case (Inr v)
    obtain r m' where r: "upsert_vector_batch (acc @ [v]) m = (r, m')"
      by (cases "upsert_vector_batch (acc @ [v]) m")
    then have m': "postgres_conn m' = postgres_conn m"
      using upsert_attempts_frame [of "[0..<max_retries]" "acc @ [v]" m]
      by (simp add: upsert_vector_batch_def)
    show ?thesis
      using Inr r m' Cons.IH by (cases r) (simp_all add: Let_def)
  qed
qed

lemma generate_frame:
  "postgres_conn (snd (generate_vector_embeddings cs m)) = postgres_conn m"
proof -
  let ?m0 = "m\<lparr>vector_index := clear_index (vector_index m)\<rparr>"
  obtain r m' where r: "embed_chunks cs [] ?m0 = (r, m')" by (cases "embed_chunks cs [] ?m0")
  then have "postgres_conn m' = postgres_conn m"
    using embed_chunks_frame [of cs "[]" ?m0] by simp
  with r show ?thesis by (cases r) (simp_all add: generate_vector_embeddings_def)
qed

lemma insert_professional_frame:
  "experiences (postgres_conn (snd (insert_professional_data p m))) = experiences (postgres_conn m)"
  "skills (postgres_conn (snd (insert_professional_data p m))) = skills (postgres_conn m)"
  "projects (postgres_conn (snd (insert_professional_data p m))) = projects (postgres_conn m)"
  "education (postgres_conn (snd (insert_professional_data p m))) = education (postgres_conn m)"
  "vector_index (snd (insert_professional_data p m)) = vector_index m"
  "education_inserted (stats (snd (insert_professional_data p m))) = education_inserted (stats m)"
  by (simp_all add: insert_professional_data_def Let_def split: option.split)

lemma insert_experiences_frame:
  "professionals (postgres_conn (insert_experiences strp xs pid m)) = professionals (postgres_conn m)"
  "experiences (postgres_conn (insert_experiences strp xs pid m))
     = filter (\<lambda>r. er_professional_id r \<noteq> pid) (experiences (postgres_conn m))
       @ map (experience_row_of strp pid) xs"
  "skills (postgres_conn (insert_experiences strp xs pid m)) = skills (postgres_conn m)"
  "projects (postgres_conn (insert_experiences strp xs pid m)) = projects (postgres_conn m)"
  "education (postgres_conn (insert_experiences strp xs pid m)) = education (postgres_conn m)"
  "vector_index (insert_experiences strp xs pid m) = vector_index m"
  "education_inserted (stats (insert_experiences strp xs pid m)) = education_inserted (stats m)"
  by (simp_all add: insert_experiences_def insert_experience_rows_eq)

lemma insert_skills_frame:
  "professionals (postgres_conn (insert_skills sk pid m)) = professionals (postgres_conn m)"
  "experiences (postgres_conn (insert_skills sk pid m)) = experiences (postgres_conn m)"
  "skills (postgres_conn (insert_skills sk pid m))
     = filter (\<lambda>r. sr_professional_id r \<noteq> pid) (skills (postgres_conn m)) @ all_skills pid sk"
  "projects (postgres_conn (insert_skills sk pid m)) = projects (postgres_conn m)"
  "education (postgres_conn (insert_skills sk pid m)) = education (postgres_conn m)"
  "vector_index (insert_skills sk pid m) = vector_index m"
  "education_inserted (stats (insert_skills sk pid m)) = education_inserted (stats m)"
  by (simp_all add: insert_skills_def insert_skill_rows_eq)

lemma insert_projects_frame:
  "professionals (postgres_conn (insert_projects strp ps pid m)) = professionals (postgres_conn m)"
  "experiences (postgres_conn (insert_projects strp ps pid m)) = experiences (postgres_conn m)"
  "skills (postgres_conn (insert_projects strp ps pid m)) = skills (postgres_conn m)"
  "projects (postgres_conn (insert_projects strp ps pid m))
     = filter (\<lambda>r. jr_professional_id r \<noteq> pid) (projects (postgres_conn m))
       @ map (project_row_of strp pid) ps"
  "education (postgres_conn (insert_projects strp ps pid m)) = education (postgres_conn m)"
  "vector_index (insert_projects strp ps pid m) = vector_index m"
  "education_inserted (stats (insert_projects strp ps pid m)) = education_inserted (stats m)"
  by (simp_all add: insert_projects_def insert_project_rows_eq)

lemma insert_education_frame:
  "professionals (postgres_conn (insert_education strp es pid m)) = professionals (postgres_conn m)"
  "experiences (postgres_conn (insert_education strp es pid m)) = experiences (postgres_conn m)"
  "skills (postgres_conn (insert_education strp es pid m)) = skills (postgres_conn m)"
  "projects (postgres_conn (insert_education strp es pid m)) = projects (postgres_conn m)"
  "education (postgres_conn (insert_education strp es pid m))
     = filter (\<lambda>r. dr_professional_id r \<noteq> pid) (education (postgres_conn m))
       @ map (education_row_of strp pid) es"
  "vector_index (insert_education strp es pid m) = vector_index m"
  by (simp_all add: insert_education_def insert_education_rows_eq)

lemma insert_json_content_frame:
  "professionals (postgres_conn (snd (insert_json_content d pid m))) = professionals (postgres_conn m)"
  "experiences (postgres_conn (snd (insert_json_content d pid m))) = experiences (postgres_conn m)"
  "skills (postgres_conn (snd (insert_json_content d pid m))) = skills (postgres_conn m)"
  "projects (postgres_conn (snd (insert_json_content d pid m))) = projects (postgres_conn m)"
  "education (postgres_conn (snd (insert_json_content d pid m))) = education (postgres_conn m)"
  "vector_index (snd (insert_json_content d pid m)) = vector_index m"
  "education_inserted (stats (snd (insert_json_content d pid m))) = education_inserted (stats m)"
  by (simp_all add: insert_json_content_def Let_def split: option.split)

lemma insert_content_chunks_frame:
  "professionals (postgres_conn (snd (insert_content_chunks cs pid m))) = professionals (postgres_conn m)"
  "experiences (postgres_conn (snd (insert_content_chunks cs pid m))) = experiences (postgres_conn m)"
  "skills (postgres_conn (snd (insert_content_chunks cs pid m))) = skills (postgres_conn m)"
  "projects (postgres_conn (snd (insert_content_chunks cs pid m))) = projects (postgres_conn m)"
  "education (postgres_conn (snd (insert_content_chunks cs pid m))) = education (postgres_conn m)"
  "vector_index (snd (insert_content_chunks cs pid m)) = vector_index m"
  "education_inserted (stats (snd (insert_content_chunks cs pid m))) = education_inserted (stats m)"
  by (simp_all add: insert_content_chunks_def insert_chunk_rows_eq)

lemmas stage_frames = insert_professional_frame insert_experiences_frame insert_skills_frame
  insert_projects_frame insert_education_frame insert_json_content_frame
  insert_content_chunks_frame generate_frame

lemma run_stages_tables:
  assumes "doc_personalInfo d = Some p"
  shows "professionals (postgres_conn (snd (run_stages strp d m)))
           = professionals (postgres_conn (snd (insert_professional_data p m)))"
    and "experiences (postgres_conn (snd (run_stages strp d m)))
           = (case doc_experience d of
                None \<Rightarrow> experiences (postgres_conn m)
              | Some xs \<Rightarrow>
                  filter (\<lambda>r. er_professional_id r \<noteq> fst (insert_professional_data p m))
                    (experiences (postgres_conn m))
                  @ map (experience_row_of strp (fst (insert_professional_data p m))) xs)"
    and "skills (postgres_conn (snd (run_stages strp d m)))
           = (case doc_skills d of
                None \<Rightarrow> skills (postgres_conn m)
              | Some sk \<Rightarrow>
                  filter (\<lambda>r. sr_professional_id r \<noteq> fst (insert_professional_data p m))
                    (skills (postgres_conn m))
                  @ all_skills (fst (insert_professional_data p m)) sk)"
    and "projects (postgres_conn (snd (run_stages strp d m)))
           = (case doc_projects d of
                None \<Rightarrow> projects (postgres_conn m)
              | Some ps \<Rightarrow>
                  filter (\<lambda>r. jr_professional_id r \<noteq> fst (insert_professional_data p m))
                    (projects (postgres_conn m))
                  @ map (project_row_of strp (fst (insert_professional_data p m))) ps)"
    and "education (postgres_conn (snd (run_stages strp d m)))
           = (case doc_education d of
                None \<Rightarrow> education (postgres_conn m)
              | Some es \<Rightarrow>
                  filter (\<lambda>r. dr_professional_id r \<noteq> fst (insert_professional_data p m))
                    (education (postgres_conn m))
                  @ map (education_row_of strp (fst (insert_professional_data p m))) es)"
  using assms unfolding run_stages_def load_document_json
  by (simp_all add: case_prod_beta Let_def stage_frames split: option.split)

lemma main_db: "postgres_conn (snd (main strp d m)) = postgres_conn (snd (run_stages strp d m))"
  by (simp add: main_def split: prod.split sum.split)











lemma stage_errors:
  "errors_encountered (stats (snd (insert_professional_data p m))) = errors_encountered (stats m)"
  "errors_encountered (stats (insert_experiences strp xs pid m)) = errors_encountered (stats m)"
  "errors_encountered (stats (insert_skills sk pid m)) = errors_encountered (stats m)"
  "errors_encountered (stats (insert_projects strp ps pid m)) = errors_encountered (stats m)"
  "errors_encountered (stats (insert_education strp es pid m)) = errors_encountered (stats m)"
  "errors_encountered (stats (snd (insert_json_content d pid m))) = errors_encountered (stats m)"
  "errors_encountered (stats (snd (insert_content_chunks cs pid m))) = errors_encountered (stats m)"
  by (simp_all add: insert_professional_data_def insert_experiences_def
      insert_experience_rows_eq insert_skills_def insert_skill_rows_eq insert_projects_def
      insert_project_rows_eq insert_education_def insert_education_rows_eq
      insert_json_content_def insert_content_chunks_def insert_chunk_rows_eq Let_def
      split: option.split)

lemma upsert_batch_ok:
  assumes "\<forall>k. \<not> upsert_raises (vector_index m) k"
  shows "fst (upsert_vector_batch vs m) = Inr ()"
    and "upsert_raises (vector_index (snd (upsert_vector_batch vs m)))
           = upsert_raises (vector_index m)"
    and "errors_encountered (stats (snd (upsert_vector_batch vs m)))
           = errors_encountered (stats m)"
    and "education_inserted (stats (snd (upsert_vector_batch vs m)))
           = education_inserted (stats m)"
  using assms unfolding upsert_vector_batch_def range_max_retries
  by (simp_all add: index_upsert_def)

lemma embed_chunks_ok:
  assumes "\<forall>k. \<not> upsert_raises (vector_index m) k"
    and "list_all (\<lambda>c. metadata c ''vector_id'' \<noteq> None) cs"
  shows "fst (embed_chunks cs acc m) = Inr ()
       \<and> errors_encountered (stats (snd (embed_chunks cs acc m))) = errors_encountered (stats m)
       \<and> education_inserted (stats (snd (embed_chunks cs acc m))) = education_inserted (stats m)"
  using assms
proof (induction cs arbitrary: acc m)
  case Nil
  then show ?case using upsert_batch_ok [of m acc] by simp
next
  case (Cons c cs)
  from Cons.prems(2) obtain vid where "metadata c ''vector_id'' = Some vid" by auto
  then obtain v where v: "vector_of_chunk c = Inr v" by (simp add: vector_of_chunk_def)
  from Cons.prems(2) have rest: "list_all (\<lambda>c. metadata c ''vector_id'' \<noteq> None) cs" by simp
  show ?case
  proof (cases "batch_size \<le> length (acc @ [v])")
    case True
    obtain r m' where r: "upsert_vector_batch (acc @ [v]) m = (r, m')"
      by (cases "upsert_vector_batch (acc @ [v]) m")
    with upsert_batch_ok [OF Cons.prems(1), of "acc @ [v]"]
    have ok: "r = Inr ()" "upsert_raises (vector_index m') = upsert_raises (vector_index m)"
      "errors_encountered (stats m') = errors_encountered (stats m)"
      "education_inserted (stats m') = education_inserted (stats m)"
      by simp_all
    then have "\<forall>k. \<not> upsert_raises (vector_index m') k" using Cons.prems(1) by simp
    from Cons.IH [OF this rest, of "[]"] True v r ok show ?thesis by (simp add: Let_def)
  next
    case False
    from Cons.IH [OF Cons.prems(1) rest, of "acc @ [v]"] False v show ?thesis
      by (simp add: Let_def)
  qed
qed

lemma generate_ok:
  assumes "\<forall>k. \<not> upsert_raises (vector_index m) k"
    and "list_all (\<lambda>c. metadata c ''vector_id'' \<noteq> None) cs"
  shows "fst (generate_vector_embeddings cs m) = Inr ()
       \<and> errors_encountered (stats (snd (generate_vector_embeddings cs m)))
           = errors_encountered (stats m)
       \<and> education_inserted (stats (snd (generate_vector_embeddings cs m)))
           = education_inserted (stats m)"
proof -
  let ?m0 = "m\<lparr>vector_index := clear_index (vector_index m)\<rparr>"
  obtain r m' where r: "embed_chunks cs [] ?m0 = (r, m')" by (cases "embed_chunks cs [] ?m0")
  have "\<forall>k. \<not> upsert_raises (vector_index ?m0) k"
    using assms(1) by (simp add: clear_index_def)
  from embed_chunks_ok [OF this assms(2), of "[]"] r
  have "r = Inr ()" "errors_encountered (stats m') = errors_encountered (stats m)"
    "education_inserted (stats m') = education_inserted (stats m)"
    by simp_all
  with r show ?thesis by (simp add: generate_vector_embeddings_def)
qed

lemma persisted_have_vector_id:
  "list_all (\<lambda>c. metadata c ''vector_id'' \<noteq> None) (fst (insert_content_chunks cs pid m))"
  by (simp add: insert_content_chunks_def insert_chunk_rows_eq list_all_iff persisted_chunk_def
      case_prod_beta)

lemma run_tail_ok:
  assumes "\<forall>k. \<not> upsert_raises (vector_index m5) k"
  shows "fst (generate_vector_embeddings
               (fst (insert_content_chunks cs pid (snd (insert_json_content d pid m5))))
               (snd (insert_content_chunks cs pid (snd (insert_json_content d pid m5)))))
           = Inr ()"
    and "errors_encountered (stats (snd (generate_vector_embeddings
               (fst (insert_content_chunks cs pid (snd (insert_json_content d pid m5))))
               (snd (insert_content_chunks cs pid (snd (insert_json_content d pid m5)))))))
           = errors_encountered (stats m5)"
    and "education_inserted (stats (snd (generate_vector_embeddings
               (fst (insert_content_chunks cs pid (snd (insert_json_content d pid m5))))
               (snd (insert_content_chunks cs pid (snd (insert_json_content d pid m5)))))))
           = education_inserted (stats m5)"
proof -
  let ?m7 = "snd (insert_content_chunks cs pid (snd (insert_json_content d pid m5)))"
  have "\<forall>k. \<not> upsert_raises (vector_index ?m7) k"
    using assms by (simp add: stage_frames)
  from generate_ok [OF this persisted_have_vector_id]
  show "fst (generate_vector_embeddings
               (fst (insert_content_chunks cs pid (snd (insert_json_content d pid m5)))) ?m7)
           = Inr ()"
    and "errors_encountered (stats (snd (generate_vector_embeddings
               (fst (insert_content_chunks cs pid (snd (insert_json_content d pid m5)))) ?m7)))
           = errors_encountered (stats m5)"
    and "education_inserted (stats (snd (generate_vector_embeddings
               (fst (insert_content_chunks cs pid (snd (insert_json_content d pid m5)))) ?m7)))
           = education_inserted (stats m5)"
    by (simp_all add: stage_errors stage_frames)
qed

lemma run_stages_ok:
  assumes p: "doc_personalInfo d = Some p"
    and ok: "\<forall>k. \<not> upsert_raises (vector_index m) k"
  shows "fst (run_stages strp d m) = Inr ()"
    and "errors_encountered (stats (snd (run_stages strp d m))) = errors_encountered (stats m)"
    and "doc_education d = None \<Longrightarrow>
         education_inserted (stats (snd (run_stages strp d m))) = education_inserted (stats m)"
proof -
  let ?pid = "fst (insert_professional_data p m)"
  define m5 where "m5 =
    (let m1 = snd (insert_professional_data p m);
         m2 = (case doc_experience d of
                 None \<Rightarrow> m1 | Some xs \<Rightarrow> insert_experiences strp xs ?pid m1);
         m3 = (case doc_skills d of None \<Rightarrow> m2 | Some sk \<Rightarrow> insert_skills sk ?pid m2);
         m4 = (case doc_projects d of
                 None \<Rightarrow> m3 | Some ps \<Rightarrow> insert_projects strp ps ?pid m3)
     in (case doc_education d of
           None \<Rightarrow> m4 | Some es \<Rightarrow> insert_education strp es ?pid m4))"
  have vi: "vector_index m5 = vector_index m"
    unfolding m5_def by (simp add: Let_def stage_frames split: option.split)
  have er: "errors_encountered (stats m5) = errors_encountered (stats m)"
    unfolding m5_def by (simp add: Let_def stage_errors split: option.split)
  have ed: "education_inserted (stats m5) = education_inserted (stats m)"
    if "doc_education d = None"
    unfolding m5_def using that by (simp add: Let_def stage_frames split: option.split)
  have run: "run_stages strp d m =
      generate_vector_embeddings
        (fst (insert_content_chunks (create_content_chunks d ?pid) ?pid
                (snd (insert_json_content d ?pid m5))))
        (snd (insert_content_chunks (create_content_chunks d ?pid) ?pid
                (snd (insert_json_content d ?pid m5))))"
    unfolding run_stages_def load_document_json m5_def using p
    by (simp add: case_prod_beta Let_def)
  have ok5: "\<forall>k. \<not> upsert_raises (vector_index m5) k"
    using ok vi by simp
  show "fst (run_stages strp d m) = Inr ()"
    unfolding run by (rule run_tail_ok(1) [OF ok5])
  show "errors_encountered (stats (snd (run_stages strp d m))) = errors_encountered (stats m)"
    unfolding run using run_tail_ok(2) [OF ok5] er by simp
  show "education_inserted (stats (snd (run_stages strp d m))) = education_inserted (stats m)"
    if "doc_education d = None"
    unfolding run using run_tail_ok(3) [OF ok5] ed [OF that] by simp
qed

lemma main_ok:
  assumes "doc_personalInfo d = Some p"
    and "\<forall>k. \<not> upsert_raises (vector_index m) k"
  shows "fst (main strp d m) = 0"
    and "stats (snd (main strp d m)) = stats (snd (run_stages strp d m))"
proof -
  obtain r m' where r: "run_stages strp d m = (r, m')" by (cases "run_stages strp d m")
  with run_stages_ok(1) [OF assms, of strp] have "r = Inr ()" by simp
  with r show "fst (main strp d m) = 0"
    and "stats (snd (main strp d m)) = stats (snd (run_stages strp d m))"
    by (simp_all add: main_def)
qed















lemma load_without_education:
  assumes "doc_education d = None" "doc_personalInfo d = Some p" "doc_experience d = Some xs"
    "doc_skills d = Some sk" "doc_projects d = Some ps"
  shows "load_and_validate_json (Parsed (document_json d))
           = (Inr (document_json d), [WarnMissingSections [ustr ''education''], InfoLoaded])"
proof -
  have missing: "missing_sections required_sections (document_json d) = Inr [ustr ''education'']"
    using assms
    by (simp add: document_json_def missing_sections_obj required_sections_def json_field_def
        ustr_def)
  obtain ns where "section_lengths sized_sections (document_json d) = Inr ns"
    unfolding document_json_def using section_lengths_obj [OF document_json_sized] by blast
  with missing show ?thesis
    by (simp add: validate_sections_def Let_def)
qed

text \<open>
  Claim C6. Take a document that has no \<open>education\<close> section and has the four other
  sections, and a vector service that accepts every upsert. The loader returns the
  document and only logs the missing section; the pipeline exits with status 0 and counts
  no error; the \<open>education\<close> table is as it was and no education row is counted; and the
  Chunk Builder produces no chunk of type \<open>education\<close>.
\<close>

theorem missing_education_section:
  assumes "doc_education d = None" and "doc_personalInfo d = Some p"
    and "doc_experience d = Some xs" and "doc_skills d = Some sk" and "doc_projects d = Some ps"
    and "\<forall>k. \<not> upsert_raises (vector_index m) k"
  shows "load_and_validate_json (Parsed (document_json d))
           = (Inr (document_json d), [WarnMissingSections [ustr ''education''], InfoLoaded])
       \<and> fst (main strp d m) = 0
       \<and> errors_encountered (stats (snd (main strp d m))) = errors_encountered (stats m)
       \<and> education (postgres_conn (snd (main strp d m))) = education (postgres_conn m)
       \<and> education_inserted (stats (snd (main strp d m))) = education_inserted (stats m)
       \<and> filter (\<lambda>c. chunk_type c = ustr ''education'') (create_content_chunks d pid) = []"
proof -
  have a: "load_and_validate_json (Parsed (document_json d))
           = (Inr (document_json d), [WarnMissingSections [ustr ''education''], InfoLoaded])"
    using assms(1-5) by (rule load_without_education)
  have b: "fst (main strp d m) = 0"
    using assms(2,6) by (rule main_ok(1))
  have st: "stats (snd (main strp d m)) = stats (snd (run_stages strp d m))"
    using assms(2,6) by (rule main_ok(2))
  have c: "errors_encountered (stats (snd (main strp d m))) = errors_encountered (stats m)"
    unfolding st using assms(2,6) by (rule run_stages_ok(2))
  have e: "education (postgres_conn (snd (main strp d m))) = education (postgres_conn m)"
    by (simp add: main_db run_stages_tables(5) [OF assms(2)] assms(1))
  have f: "education_inserted (stats (snd (main strp d m))) = education_inserted (stats m)"
    unfolding st using assms(2,6,1) by (rule run_stages_ok(3))
  have g: "filter (\<lambda>c. chunk_type c = ustr ''education'') (create_content_chunks d pid) = []"
    unfolding chunks_of_type by (simp add: education_chunks_def assms(1) get_or_def)
  from a b c e f g show ?thesis by blast
qed

theorem missing_education_section_witness:
  "doc_education (example_document\<lparr>doc_education := None\<rparr>) = None
   \<and> doc_personalInfo (example_document\<lparr>doc_education := None\<rparr>) = Some example_personal
   \<and> (\<forall>k. \<not> upsert_raises
          (vector_index (new_migrator empty_database (empty_index (\<lambda>k. False)))) k)
   \<and> fst (main strptime (example_document\<lparr>doc_education := None\<rparr>)
          (new_migrator empty_database (empty_index (\<lambda>k. False)))) = 0
   \<and> education (postgres_conn (snd (main strptime (example_document\<lparr>doc_education := None\<rparr>)
          (new_migrator empty_database (empty_index (\<lambda>k. False)))))) = []
   \<and> education_inserted (stats (snd (main strptime (example_document\<lparr>doc_education := None\<rparr>)
          (new_migrator empty_database (empty_index (\<lambda>k. False)))))) = 0
   \<and> filter (\<lambda>c. chunk_type c = ustr ''education'')
        (create_content_chunks (example_document\<lparr>doc_education := None\<rparr>) 1) = []
   \<and> map chunk_type (create_content_chunks (example_document\<lparr>doc_education := None\<rparr>) 1)
       = [ustr ''personal_info'', ustr ''experience'', ustr ''skills'', ustr ''project'']"
proof -
  have chunks: "map chunk_type (create_content_chunks (example_document\<lparr>doc_education := None\<rparr>) 1)
       = [ustr ''personal_info'', ustr ''experience'', ustr ''skills'', ustr ''project'']"
    by (simp add: create_content_chunks_def example_document_def example_personal_def
        empty_personal_info_def personal_info_chunks_def personal_info_json_def json_field_def
        experience_chunks_def experience_chunk_def skills_chunks_def soft_skills_chunk_def
        project_chunks_def project_chunk_def education_chunks_def get_or_def
        enumerate_eq_zip upt_rec Let_def)
  show ?thesis
    using missing_education_section
      [of "example_document\<lparr>doc_education := None\<rparr>" example_personal
          "[empty_experience\<lparr>ex_company := Some (ustr ''Acme''),
                             ex_duration := Some (ustr ''2021-03 - Present'')\<rparr>]"
          "\<lparr>sk_technical = None,
            sk_soft_skills = Some [\<lparr>ss_skill = Some (ustr ''Writing''),
                                    ss_name = None, ss_evidence = None, ss_examples = None\<rparr>]\<rparr>"
          "[empty_project\<lparr>pr_status := Some (ustr ''completed'')\<rparr>]"
          "new_migrator empty_database (empty_index (\<lambda>k. False))" strptime 1]
      chunks
    by (simp add: example_document_def new_migrator_def empty_database_def empty_index_def
        new_stats_def)
qed

lemma main_aborts:
  assumes p: "doc_personalInfo d = Some p"
    and r0: "upsert_raises (vector_index m) (upsert_calls (vector_index m))"
    and r1: "upsert_raises (vector_index m) (Suc (upsert_calls (vector_index m)))"
    and r2: "upsert_raises (vector_index m) (Suc (Suc (upsert_calls (vector_index m))))"
    and ne: "create_content_chunks d (fst (insert_professional_data p m)) \<noteq> []"
  shows "fst (main strp d m) = 1"
    and "vectors_embedded (stats (snd (main strp d m))) = vectors_embedded (stats m)"
proof -
  let ?pid = "fst (insert_professional_data p m)"
  define m5 where "m5 =
    (let m1 = snd (insert_professional_data p m);
         m2 = (case doc_experience d of
                 None \<Rightarrow> m1 | Some xs \<Rightarrow> insert_experiences strp xs ?pid m1);
         m3 = (case doc_skills d of None \<Rightarrow> m2 | Some sk \<Rightarrow> insert_skills sk ?pid m2);
         m4 = (case doc_projects d of
                 None \<Rightarrow> m3 | Some ps \<Rightarrow> insert_projects strp ps ?pid m3)
     in (case doc_education d of
           None \<Rightarrow> m4 | Some es \<Rightarrow> insert_education strp es ?pid m4))"
  let ?cs = "fst (insert_content_chunks (create_content_chunks d ?pid) ?pid
                (snd (insert_json_content d ?pid m5)))"
  let ?m7 = "snd (insert_content_chunks (create_content_chunks d ?pid) ?pid
                (snd (insert_json_content d ?pid m5)))"
  have vi: "vector_index ?m7 = vector_index m"
    unfolding m5_def by (simp add: Let_def stage_frames split: option.split)
  have ve: "vectors_embedded (stats ?m7) = vectors_embedded (stats m)"
    unfolding m5_def
    by (simp add: insert_professional_data_def insert_experiences_def
      insert_experience_rows_eq insert_skills_def insert_skill_rows_eq insert_projects_def
      insert_project_rows_eq insert_education_def insert_education_rows_eq
      insert_json_content_def insert_content_chunks_def insert_chunk_rows_eq Let_def
      split: option.split)
  have run: "run_stages strp d m = generate_vector_embeddings ?cs ?m7"
    unfolding run_stages_def load_document_json m5_def using p
    by (simp add: case_prod_beta Let_def)
  have "length ?cs = length (create_content_chunks d ?pid)"
    by (simp add: insert_content_chunks_def insert_chunk_rows_eq)
  with ne have cs: "?cs \<noteq> []"
    by (metis length_0_conv)
  have g: "fst (generate_vector_embeddings ?cs ?m7) = Inl UpstashError
     \<and> vectors_embedded (stats (snd (generate_vector_embeddings ?cs ?m7)))
         = vectors_embedded (stats ?m7)"
  proof (rule generate_exhausted)
    show "upsert_raises (vector_index ?m7) (upsert_calls (vector_index ?m7))"
      using r0 by (simp only: vi)
    show "upsert_raises (vector_index ?m7) (Suc (upsert_calls (vector_index ?m7)))"
      using r1 by (simp only: vi)
    show "upsert_raises (vector_index ?m7) (Suc (Suc (upsert_calls (vector_index ?m7))))"
      using r2 by (simp only: vi)
    show "list_all (\<lambda>c. metadata c ''vector_id'' \<noteq> None) ?cs"
      by (rule persisted_have_vector_id)
    show "?cs \<noteq> []"
      by (rule cs)
  qed
  have f1: "fst (run_stages strp d m) = Inl UpstashError"
    unfolding run using g by blast
  have f2: "vectors_embedded (stats (snd (run_stages strp d m))) = vectors_embedded (stats m)"
    unfolding run using g ve by (simp only:)
  obtain r m' where r: "run_stages strp d m = (r, m')" by (cases "run_stages strp d m")
  with f1 f2 have "r = Inl UpstashError" "vectors_embedded (stats m') = vectors_embedded (stats m)"
    by simp_all
  with r show "fst (main strp d m) = 1"
    and "vectors_embedded (stats (snd (main strp d m))) = vectors_embedded (stats m)"
    by (simp_all add: main_def)
qed

text \<open>
  Claim C3. A batch is upserted at most \<open>max_retries = 3\<close> times. When the first two
  attempts fail and the third succeeds, the batch is counted once (\<open>vectors_embedded\<close>
  grows by its length) and the migrator has slept \<open>retry_delay * 1\<close> and then
  \<open>retry_delay * 2\<close> seconds. When all three attempts fail, the error is raised with
  nothing counted, after the same two delays; \<open>generate_vector_embeddings\<close> raises it
  on to its caller with no chunk counted, and a run of \<open>main\<close> that has chunks to embed
  ends with exit status 1 and none counted.
\<close>

theorem upsert_vector_batch_retry:
  "upsert_calls (vector_index (snd (upsert_vector_batch vs m)))
     \<le> upsert_calls (vector_index m) + max_retries
   \<and> (upsert_raises (vector_index m) (upsert_calls (vector_index m))
       \<and> upsert_raises (vector_index m) (Suc (upsert_calls (vector_index m)))
       \<and> \<not> upsert_raises (vector_index m) (Suc (Suc (upsert_calls (vector_index m))))
      \<longrightarrow> fst (upsert_vector_batch vs m) = Inr ()
          \<and> vectors_embedded (stats (snd (upsert_vector_batch vs m)))
              = vectors_embedded (stats m) + length vs
          \<and> slept (snd (upsert_vector_batch vs m))
              = slept m @ [retry_delay * 1, retry_delay * 2])
   \<and> (upsert_raises (vector_index m) (upsert_calls (vector_index m))
       \<and> upsert_raises (vector_index m) (Suc (upsert_calls (vector_index m)))
       \<and> upsert_raises (vector_index m) (Suc (Suc (upsert_calls (vector_index m))))
      \<longrightarrow> fst (upsert_vector_batch vs m) = Inl UpstashError
          \<and> vectors_embedded (stats (snd (upsert_vector_batch vs m)))
              = vectors_embedded (stats m)
          \<and> slept (snd (upsert_vector_batch vs m))
              = slept m @ [retry_delay * 1, retry_delay * 2]
          \<and> (list_all (\<lambda>c. metadata c ''vector_id'' \<noteq> None) chunks \<and> chunks \<noteq> []
              \<longrightarrow> fst (generate_vector_embeddings chunks m) = Inl UpstashError
                  \<and> vectors_embedded (stats (snd (generate_vector_embeddings chunks m)))
                      = vectors_embedded (stats m))
          \<and> (doc_personalInfo d = Some p
               \<and> create_content_chunks d (fst (insert_professional_data p m)) \<noteq> []
              \<longrightarrow> fst (main strp d m) = 1
                  \<and> vectors_embedded (stats (snd (main strp d m)))
                      = vectors_embedded (stats m)))"
proof -
  have a: "upsert_calls (vector_index (snd (upsert_vector_batch vs m)))
     \<le> upsert_calls (vector_index m) + max_retries"
    using upsert_batch_calls [of vs m] by (simp add: max_retries_def)
  show ?thesis
    using a upsert_batch_third_try [of m vs] upsert_batch_exhausted [of m vs]
      generate_exhausted [of m chunks] main_aborts [of d p m strp]
    by simp
qed

theorem upsert_vector_batch_retry_witness:
  "fst (upsert_vector_batch [\<lparr>v_id = PStr (ustr ''a''), v_metadata = Map.empty\<rparr>]
          (new_migrator empty_database (empty_index (\<lambda>k. k < 2)))) = Inr ()
   \<and> vectors_embedded (stats (snd (upsert_vector_batch
          [\<lparr>v_id = PStr (ustr ''a''), v_metadata = Map.empty\<rparr>]
          (new_migrator empty_database (empty_index (\<lambda>k. k < 2)))))) = 1
   \<and> slept (snd (upsert_vector_batch [\<lparr>v_id = PStr (ustr ''a''), v_metadata = Map.empty\<rparr>]
          (new_migrator empty_database (empty_index (\<lambda>k. k < 2))))) = [1, 2]
   \<and> fst (upsert_vector_batch [\<lparr>v_id = PStr (ustr ''a''), v_metadata = Map.empty\<rparr>]
          (new_migrator empty_database (empty_index (\<lambda>k. True)))) = Inl UpstashError
   \<and> vectors_embedded (stats (snd (upsert_vector_batch
          [\<lparr>v_id = PStr (ustr ''a''), v_metadata = Map.empty\<rparr>]
          (new_migrator empty_database (empty_index (\<lambda>k. True)))))) = 0
   \<and> fst (generate_vector_embeddings
          [\<lparr>metadata = [''vector_id'' \<mapsto> PStr (ustr ''a'')], chunk_type = ustr ''skills'',
            importance = ustr ''high'', date_context = None\<rparr>]
          (new_migrator empty_database (empty_index (\<lambda>k. True)))) = Inl UpstashError
   \<and> vectors_embedded (stats (snd (generate_vector_embeddings
          [\<lparr>metadata = [''vector_id'' \<mapsto> PStr (ustr ''a'')], chunk_type = ustr ''skills'',
            importance = ustr ''high'', date_context = None\<rparr>]
          (new_migrator empty_database (empty_index (\<lambda>k. True)))))) = 0
   \<and> doc_personalInfo example_document = Some example_personal
   \<and> fst (main strptime example_document
          (new_migrator empty_database (empty_index (\<lambda>k. True)))) = 1
   \<and> vectors_embedded (stats (snd (main strptime example_document
          (new_migrator empty_database (empty_index (\<lambda>k. True)))))) = 0"
proof -
  have chunks: "create_content_chunks example_document
      (fst (insert_professional_data example_personal
              (new_migrator empty_database (empty_index (\<lambda>k. True))))) \<noteq> []"
    by (simp add: create_content_chunks_def example_document_def experience_chunks_def
        get_or_def enumerate_eq_zip upt_rec)
  show ?thesis
    using upsert_vector_batch_retry
        [where vs = "[\<lparr>v_id = PStr (ustr ''a''), v_metadata = Map.empty\<rparr>]"
           and m = "new_migrator empty_database (empty_index (\<lambda>k. k < 2))"
           and chunks = "[]" and d = example_document and p = example_personal
           and strp = strptime]
      upsert_vector_batch_retry
        [where vs = "[\<lparr>v_id = PStr (ustr ''a''), v_metadata = Map.empty\<rparr>]"
           and m = "new_migrator empty_database (empty_index (\<lambda>k. True))"
           and chunks = "[\<lparr>metadata = [''vector_id'' \<mapsto> PStr (ustr ''a'')],
               chunk_type = ustr ''skills'', importance = ustr ''high'',
               date_context = None\<rparr>]"
           and d = example_document and p = example_personal and strp = strptime]
      chunks
    by (simp add: new_migrator_def empty_index_def new_stats_def retry_delay_def
        example_document_def)
qed

end
